theory Spec2Isabelle
  imports Main "HOL-Library.AList"
begin

section \<open>Error values and their normalisation (parseResponseError)\<close>

text \<open>
  The error bodies of the provider: an optional \<open>name\<close>, an optional \<open>message\<close> and an
  optional \<open>details\<close> list whose entries have an optional \<open>issue\<close> and an optional
  \<open>description\<close>. An absent field is \<open>None\<close> (JavaScript \<open>undefined\<close>).
\<close>

record err_detail =
  issue :: "string option"
  description :: "string option"

record err_data =
  d_name :: "string option"
  d_message :: "string option"
  d_details :: "err_detail list option"

text \<open>
  \<open>err.response\<close>: the HTTP status (a number, absent when \<open>None\<close>) and the body \<open>data\<close>.
  \<open>r_data = None\<close> stands for every falsy body (undefined, null, the empty string).
\<close>

record err_response =
  r_status :: "nat option"
  r_data :: "err_data option"

text \<open>
  The \<open>message\<close> property of an error. The catch block of \<open>makeRequest\<close> assigns the result
  of \<open>parseResponseError\<close> to it, which is either a string or the error object itself.
\<close>

datatype err_message = Text string | Self

datatype err_kind = AxiosError | TypeError | PlainError

text \<open>
  A thrown value. \<open>e_json\<close> is what \<open>JSON.stringify(err, null, 0)\<close> gives for it: the
  serialiser belongs to the runtime, so its output is carried by the value.
\<close>

record js_error =
  e_kind :: err_kind
  e_message :: err_message
  e_response :: "err_response option"
  e_json :: string

subsection \<open>String helpers of the runtime\<close>

definition digit_char :: "nat \<Rightarrow> char" where
  "digit_char d = ''0123456789'' ! d"

text \<open>Number to string for a non-negative integer (template literal of the status).\<close>

fun show_nat :: "nat \<Rightarrow> string" where
  "show_nat n = (if n < 10 then [digit_char n] else show_nat (n div 10) @ [digit_char (n mod 10)])"

declare show_nat.simps [simp del]

text \<open>\<open>Array.prototype.join\<close>.\<close>

fun join :: "string \<Rightarrow> string list \<Rightarrow> string" where
  "join sep [] = []"
| "join sep [x] = x"
| "join sep (x # y # ys) = x @ sep @ join sep (y # ys)"

text \<open>
  \<open>String.prototype.trim\<close> on strings of 8-bit characters: tab, line feed, vertical tab,
  form feed, carriage return, space and the no-break space are white space.
\<close>

definition js_space :: "char \<Rightarrow> bool" where
  "js_space c = (of_char c \<in> {9, 10, 11, 12, 13, 32, 160 :: nat})"

definition trim :: "string \<Rightarrow> string" where
  "trim s = rev (dropWhile js_space (rev (dropWhile js_space s)))"

text \<open>A value inside a template literal: an absent one prints as \<open>undefined\<close>.\<close>

definition tpl :: "string option \<Rightarrow> string" where
  "tpl v = (case v of None \<Rightarrow> ''undefined'' | Some s \<Rightarrow> s)"

text \<open>Truthiness of an optional string: present and not empty.\<close>

definition truthy_str :: "string option \<Rightarrow> bool" where
  "truthy_str v = (case v of None \<Rightarrow> False | Some s \<Rightarrow> s \<noteq> [])"

subsection \<open>parseResponseError\<close>

text \<open>The loop of lines 29 to 32: one push for each entry of \<open>data.details\<close>.\<close>

fun push_issues :: "string list \<Rightarrow> err_detail list \<Rightarrow> string list" where
  "push_issues details [] = details"
| "push_issues details (d # ds) =
     push_issues (details @ [trim (tpl (issue d) @ '' '' @ tpl (description d))]) ds"

text \<open>
  The function returns the error itself (\<open>Inl\<close>) when there is no response or no body, and
  the joined string (\<open>Inr\<close>) otherwise. A number is truthy when it is not zero, a string
  when it is not empty.
\<close>

definition parseResponseError :: "js_error \<Rightarrow> js_error + string" where
  "parseResponseError err =
     (case e_response err of
        None \<Rightarrow> Inl err
      | Some resp \<Rightarrow>
          (case r_data resp of
             None \<Rightarrow> Inl err
           | Some dat \<Rightarrow>
               (let details = [];
                    details = (case r_status resp of
                                 None \<Rightarrow> details
                               | Some st \<Rightarrow>
                                   if st \<noteq> 0 then details @ [''Status '' @ show_nat st]
                                   else details);
                    details = (if truthy_str (d_name dat) then details @ [tpl (d_name dat)]
                               else if truthy_str (d_message dat)
                                 then details @ [tpl (d_message dat)]
                               else details);
                    details = (case d_details dat of
                                 None \<Rightarrow> details
                               | Some ds \<Rightarrow>
                                   if length ds > 0 then push_issues details ds else details);
                    details = (if length details = 0 then details @ [e_json err] else details)
                in Inr (join '', '' details))))"

subsection \<open>The normalisation policy in the words of the specification\<close>

text \<open>
  The status if any, then the name or else the message if any, then one rendering for each
  entry of the details, joined by a comma and a space; the raw serialisation when there is
  nothing else.
\<close>

definition status_text :: "err_response \<Rightarrow> string list" where
  "status_text resp =
     (case r_status resp of
        None \<Rightarrow> []
      | Some st \<Rightarrow> if st = 0 then [] else [''Status '' @ show_nat st])"

definition name_or_message :: "err_data \<Rightarrow> string list" where
  "name_or_message dat =
     (case filter (\<lambda>v. v \<noteq> []) (map tpl (filter (\<lambda>v. v \<noteq> None) [d_name dat, d_message dat])) of
        [] \<Rightarrow> []
      | v # vs \<Rightarrow> [v])"

definition render_detail :: "err_detail \<Rightarrow> string" where
  "render_detail d = trim (tpl (issue d) @ '' '' @ tpl (description d))"

definition detail_texts :: "err_data \<Rightarrow> string list" where
  "detail_texts dat = (case d_details dat of None \<Rightarrow> [] | Some ds \<Rightarrow> map render_detail ds)"

definition normalized :: "err_response \<Rightarrow> err_data \<Rightarrow> string \<Rightarrow> string" where
  "normalized resp dat raw =
     (let parts = status_text resp @ name_or_message dat @ detail_texts dat
      in join '', '' (if parts = [] then [raw] else parts))"

section \<open>The client state and its collaborators\<close>

text \<open>\<open>PayPalAuth\<close>: the access token (absent when the token response had none) and the expiry.\<close>

record PayPalAuth =
  accessToken :: "string option"
  expiresAt :: int

text \<open>What the transport resolves with: the two fields \<open>authenticate\<close> reads, and the rest.\<close>

record response =
  access_token :: "string option"
  expires_in :: "int option"
  r_other :: string

text \<open>The options object as the transport receives it.\<close>

record wire_request =
  w_method :: "string option"
  w_url :: string
  w_headers :: "(string \<times> string) list option"
  w_data :: "string option"
  w_returnRepresentation :: "bool option"
  w_timeout :: "int option"
  w_auth :: "(string \<times> string) option"

text \<open>The settings the two methods read.\<close>

record settings =
  baseUrl :: string
  mBaseUrl :: string
  clientId :: string
  clientSecret :: string
  tokenTimeout :: int

text \<open>The record kept under one key of \<open>database.appState\<close>.\<close>

record db_doc =
  doc_auth :: "PayPalAuth option"
  doc_mAuth :: "PayPalAuth option"

text \<open>
  Request objects live in a store, so that a caller's object and the copy the method works on
  are told apart: an address is an index, allocation appends. A request object refers to its
  headers object by address.
\<close>

type_synonym addr = nat

record req_obj =
  o_method :: "string option"
  o_url :: string
  o_headers :: "addr option"
  o_data :: "string option"
  o_returnRepresentation :: "bool option"

datatype caller = FromAuthenticate | FromMakeRequest

datatype log_arg = LStr string | LUndef | LErr js_error

datatype log_level = Info | Error

text \<open>
  The state: the two credential slots of the singleton, the persisted store, the clock
  (\<open>dayjs().unix()\<close>), the calls made to the transport so far with the method that made
  them, the lines given to the logger, and the store of request and headers objects.
\<close>

record paypal =
  auth :: "PayPalAuth option"
  mAuth :: "PayPalAuth option"
  appState :: "string \<rightharpoonup> db_doc"
  clock :: int
  sent :: "(caller \<times> wire_request) list"
  logged :: "(log_level \<times> log_arg list) list"
  heapOpts :: "req_obj list"
  heapHdrs :: "(string \<times> string) list list"

text \<open>
  The collaborators: the settings, the transport (\<open>axiosRequest\<close> rejects with \<open>Inl\<close>, resolves
  with \<open>Inr\<close>; \<open>Inr None\<close> is an undefined result), the seconds that pass while a transport
  call is awaited, and whether a write to the persisted store rejects.
\<close>

record env =
  settings :: settings
  axiosRequest :: "wire_request \<Rightarrow> js_error + response option"
  axiosSeconds :: "wire_request \<Rightarrow> nat"
  appStateFails :: "string \<Rightarrow> db_doc \<Rightarrow> js_error option"

text \<open>
  Modelled from the spec: \<open>database.appState.set\<close> is not among the sources. The spec has one
  record per provider name storing \<open>{auth, mAuth}\<close>, written after every successful
  authentication: a write sets the fields it carries and keeps the others.
\<close>

definition appState_set :: "(string \<rightharpoonup> db_doc) \<Rightarrow> string \<Rightarrow> db_doc \<Rightarrow> (string \<rightharpoonup> db_doc)" where
  "appState_set db key patch =
     db(key \<mapsto>
        (case db key of
           None \<Rightarrow> patch
         | Some old \<Rightarrow>
             \<lparr>doc_auth = (case doc_auth patch of None \<Rightarrow> doc_auth old | Some c \<Rightarrow> Some c),
              doc_mAuth = (case doc_mAuth patch of None \<Rightarrow> doc_mAuth old | Some c \<Rightarrow> Some c)\<rparr>))"

text \<open>The error of reading a property of an undefined value.\<close>

definition typeError_undefined :: "string \<Rightarrow> js_error" where
  "typeError_undefined prop =
     \<lparr>e_kind = TypeError,
      e_message = Text (''Cannot read properties of undefined (reading '' @ prop @ '')''),
      e_response = None,
      e_json = ''{}''\<rparr>"

text \<open>\<open>new Error(msg)\<close>.\<close>

definition newError :: "string \<Rightarrow> js_error" where
  "newError msg = \<lparr>e_kind = PlainError, e_message = Text msg, e_response = None, e_json = ''{}''\<rparr>"

definition lookup :: "'a list \<Rightarrow> addr \<Rightarrow> 'a option" where
  "lookup xs a = (if a < length xs then Some (xs ! a) else None)"

definition norm_arg :: "js_error + string \<Rightarrow> log_arg" where
  "norm_arg r = (case r of Inl e \<Rightarrow> LErr e | Inr m \<Rightarrow> LStr m)"

definition opt_arg :: "string option \<Rightarrow> log_arg" where
  "opt_arg v = (case v of None \<Rightarrow> LUndef | Some x \<Rightarrow> LStr x)"

section \<open>authenticate\<close>

definition endpointLog :: "bool \<Rightarrow> string" where
  "endpointLog mEndpoint = (if mEndpoint then ''api-m'' else ''api'')"

definition familyBaseUrl :: "settings \<Rightarrow> bool \<Rightarrow> string" where
  "familyBaseUrl cfg mEndpoint = (if mEndpoint then mBaseUrl cfg else baseUrl cfg)"

text \<open>The two constants of lines 108 to 112: the lifetime, and the credential at time \<open>now\<close>.\<close>

definition expiresIn :: "response \<Rightarrow> int" where
  "expiresIn res = (case expires_in res of None \<Rightarrow> 3600 | Some e \<Rightarrow> if e \<noteq> 0 then e else 3600)"

definition tokenData :: "response \<Rightarrow> int \<Rightarrow> PayPalAuth" where
  "tokenData res now = \<lparr>accessToken = access_token res, expiresAt = expiresIn res + now - 180\<rparr>"

text \<open>The options of the token request (lines 92 to 104).\<close>

definition token_options :: "settings \<Rightarrow> bool \<Rightarrow> wire_request" where
  "token_options cfg mEndpoint =
     \<lparr>w_method = Some ''POST'',
      w_url = familyBaseUrl cfg mEndpoint @ ''v1/oauth2/token'',
      w_headers = Some [(''Content-Type'', ''application/x-www-form-urlencoded'')],
      w_data = Some ''grant_type=client_credentials'',
      w_returnRepresentation = None,
      w_timeout = Some (tokenTimeout cfg),
      w_auth = Some (clientId cfg, clientSecret cfg)\<rparr>"

text \<open>
  The body of the try block (lines 92 to 125). \<open>Inl ex\<close> is an exception thrown there, with
  the state as it is at that point; \<open>Inr ()\<close> is reaching \<open>return true\<close>.
\<close>

definition authenticate_try :: "env \<Rightarrow> bool \<Rightarrow> paypal \<Rightarrow> (js_error + unit) \<times> paypal" where
  "authenticate_try ev mEndpoint s =
     (let options = token_options (settings ev) mEndpoint;
          s1 = s\<lparr>sent := sent s @ [(FromAuthenticate, options)],
                 clock := clock s + int (axiosSeconds ev options)\<rparr>
      in case axiosRequest ev options of
           Inl ex \<Rightarrow> (Inl ex, s1)
         | Inr None \<Rightarrow> (Inl (typeError_undefined ''expires_in''), s1)
         | Inr (Some res) \<Rightarrow>
             (let td = tokenData res (clock s1);
                  s2 = s1\<lparr>logged := logged s1 @
                          [(Info, [LStr ''PayPal.authenticate'',
                                   LStr (''Got a new '' @ endpointLog mEndpoint @ '' token'')])]\<rparr>
              in if mEndpoint then
                   (let s3 = s2\<lparr>mAuth := Some td\<rparr>;
                        patch = \<lparr>doc_auth = None, doc_mAuth = Some td\<rparr>
                    in case appStateFails ev ''paypal'' patch of
                         Some ex \<Rightarrow> (Inl ex, s3)
                       | None \<Rightarrow>
                           (Inr (), s3\<lparr>appState := appState_set (appState s3) ''paypal'' patch\<rparr>))
                 else
                   (let s3 = s2\<lparr>auth := Some td\<rparr>;
                        patch = \<lparr>doc_auth = Some td, doc_mAuth = None\<rparr>
                    in case appStateFails ev ''paypal'' patch of
                         Some ex \<Rightarrow> (Inl ex, s3)
                       | None \<Rightarrow>
                           (Inr (), s3\<lparr>appState := appState_set (appState s3) ''paypal'' patch\<rparr>))))"

text \<open>
  The method: the try block, and the catch block that logs and returns false. The result is
  a sum so that a raise to the caller would be \<open>Inl\<close>.
\<close>

definition authenticate :: "env \<Rightarrow> bool \<Rightarrow> paypal \<Rightarrow> (js_error + bool) \<times> paypal" where
  "authenticate ev mEndpoint s =
     (case authenticate_try ev mEndpoint s of
        (Inr u, s') \<Rightarrow> (Inr True, s')
      | (Inl ex, s') \<Rightarrow>
          (Inr False,
           s'\<lparr>logged := logged s' @
                [(Error, [LStr ''PayPal.authenticate'', LStr (endpointLog mEndpoint),
                          norm_arg (parseResponseError ex)])]\<rparr>))"

section \<open>makeRequest\<close>

text \<open>
  \<open>_.cloneDeep\<close>: a fresh request object and, when the original has headers, a fresh headers
  object with the same entries; an undefined argument gives undefined (\<open>None\<close>).
\<close>

definition cloneDeep :: "addr \<Rightarrow> paypal \<Rightarrow> addr option \<times> paypal" where
  "cloneDeep a s =
     (case lookup (heapOpts s) a of
        None \<Rightarrow> (None, s)
      | Some ob \<Rightarrow>
          (case (case o_headers ob of None \<Rightarrow> None | Some h \<Rightarrow> lookup (heapHdrs s) h) of
             None \<Rightarrow>
               (Some (length (heapOpts s)),
                s\<lparr>heapOpts := heapOpts s @ [ob\<lparr>o_headers := None\<rparr>]\<rparr>)
           | Some hs \<Rightarrow>
               (Some (length (heapOpts s)),
                s\<lparr>heapHdrs := heapHdrs s @ [hs],
                  heapOpts := heapOpts s @ [ob\<lparr>o_headers := Some (length (heapHdrs s))\<rparr>]\<rparr>)))"

text \<open>Assignments to a property of a request object and to an entry of a headers object.\<close>

definition set_opt :: "addr \<Rightarrow> (req_obj \<Rightarrow> req_obj) \<Rightarrow> paypal \<Rightarrow> paypal" where
  "set_opt a f s = s\<lparr>heapOpts := (heapOpts s)[a := f (heapOpts s ! a)]\<rparr>"

definition set_hdr :: "addr \<Rightarrow> string \<Rightarrow> string \<Rightarrow> paypal \<Rightarrow> paypal" where
  "set_hdr h k v s = s\<lparr>heapHdrs := (heapHdrs s)[h := AList.update k v (heapHdrs s ! h)]\<rparr>"

text \<open>What the transport sees of a request object.\<close>

definition snapshot :: "paypal \<Rightarrow> req_obj \<Rightarrow> wire_request" where
  "snapshot s ob =
     \<lparr>w_method = o_method ob,
      w_url = o_url ob,
      w_headers = (case o_headers ob of None \<Rightarrow> None | Some h \<Rightarrow> lookup (heapHdrs s) h),
      w_data = o_data ob,
      w_returnRepresentation = o_returnRepresentation ob,
      w_timeout = None,
      w_auth = None\<rparr>"

text \<open>
  Lines 142 to 151: with no credential, authenticate inside the inner try; with an expired
  one, log and authenticate; what \<open>authenticate\<close> returns is not looked at.
\<close>

definition renew_token ::
  "env \<Rightarrow> addr \<Rightarrow> bool \<Rightarrow> PayPalAuth option \<Rightarrow> paypal \<Rightarrow> (js_error + unit) \<times> paypal" where
  "renew_token ev reqOptions mEndpoint au s =
     (case au of
        None \<Rightarrow>
          (case authenticate ev mEndpoint s of
             (Inl innerEx, s') \<Rightarrow> (Inl (newError ''Not authenticated to PayPal''), s')
           | (Inr b, s') \<Rightarrow> (Inr (), s'))
      | Some a \<Rightarrow>
          if expiresAt a \<le> clock s then
            (case lookup (heapOpts s) reqOptions of
               None \<Rightarrow> (Inl (typeError_undefined ''url''), s)
             | Some ro \<Rightarrow>
                 (let s1 = s\<lparr>logged := logged s @
                             [(Info, [LStr ''PayPal.makeRequest'', LStr (o_url ro),
                                      LStr ''Token expired, will fetch a new one''])]\<rparr>
                  in case authenticate ev mEndpoint s1 of
                       (Inl ex, s') \<Rightarrow> (Inl ex, s')
                     | (Inr b, s') \<Rightarrow> (Inr (), s')))
          else (Inr (), s))"

text \<open>
  Lines 153 to 166, on the copy: the headers object, the Authorization header from the
  credential slot as it is now, the full URL, the representation flag. Returns the address
  of the copy.
\<close>

definition build_request ::
  "env \<Rightarrow> bool \<Rightarrow> addr option \<Rightarrow> paypal \<Rightarrow> (js_error + addr) \<times> paypal" where
  "build_request ev mEndpoint options s =
     (case (case options of None \<Rightarrow> None | Some oa \<Rightarrow> lookup (heapOpts s) oa) of
        None \<Rightarrow> (Inl (typeError_undefined ''headers''), s)
      | Some ob \<Rightarrow>
          (let oa = the options;
               (h, s1) = (case o_headers ob of
                            Some h \<Rightarrow> (h, s)
                          | None \<Rightarrow>
                              (length (heapHdrs s),
                               set_opt oa (\<lambda>x. x\<lparr>o_headers := Some (length (heapHdrs s))\<rparr>)
                                 (s\<lparr>heapHdrs := heapHdrs s @ [[]]\<rparr>)))
           in case (if mEndpoint then mAuth s1 else auth s1) of
                None \<Rightarrow> (Inl (typeError_undefined ''accessToken''), s1)
              | Some cred \<Rightarrow>
                  (let s2 = set_hdr h ''Authorization'' (''Bearer '' @ tpl (accessToken cred)) s1;
                       s3 = (if take 4 (o_url ob) \<noteq> ''http''
                             then set_opt oa (\<lambda>x. x\<lparr>o_url := familyBaseUrl (settings ev) mEndpoint @ o_url x\<rparr>) s2
                             else s2);
                       s4 = (if o_returnRepresentation ob = Some True
                             then set_hdr h ''Prefer'' ''return=representation''
                                    (set_opt oa (\<lambda>x. x\<lparr>o_returnRepresentation := None\<rparr>) s3)
                             else s3)
                   in (Inr oa, s4))))"

text \<open>Lines 168 to 170: the call to the transport with the copy.\<close>

definition dispatch :: "env \<Rightarrow> addr \<Rightarrow> paypal \<Rightarrow> (js_error + response option) \<times> paypal" where
  "dispatch ev oa s =
     (let w = snapshot s (heapOpts s ! oa);
          s1 = s\<lparr>sent := sent s @ [(FromMakeRequest, w)],
                 clock := clock s + int (axiosSeconds ev w)\<rparr>
      in case axiosRequest ev w of
           Inl ex \<Rightarrow> (Inl ex, s1)
         | Inr res \<Rightarrow> (Inr res, s1))"

text \<open>The body of the outer try block.\<close>

definition makeRequest_try ::
  "env \<Rightarrow> addr \<Rightarrow> bool \<Rightarrow> addr option \<Rightarrow> PayPalAuth option \<Rightarrow> paypal
     \<Rightarrow> (js_error + response option) \<times> paypal" where
  "makeRequest_try ev reqOptions mEndpoint options au s =
     (case renew_token ev reqOptions mEndpoint au s of
        (Inl ex, s1) \<Rightarrow> (Inl ex, s1)
      | (Inr u, s1) \<Rightarrow>
          (case build_request ev mEndpoint options s1 of
             (Inl ex, s2) \<Rightarrow> (Inl ex, s2)
           | (Inr oa, s2) \<Rightarrow> dispatch ev oa s2))"

text \<open>
  The method: the copy and the read of the slot, the try block, and the catch block, which
  normalises the error, logs it with the caller's method and URL, assigns the normalised
  value to the message and throws the error again.
\<close>

definition makeRequest ::
  "env \<Rightarrow> addr \<Rightarrow> bool \<Rightarrow> paypal \<Rightarrow> (js_error + response option) \<times> paypal" where
  "makeRequest ev reqOptions mEndpoint s0 =
     (let (options, s) = cloneDeep reqOptions s0;
          au = (if mEndpoint then mAuth s else auth s)
      in case makeRequest_try ev reqOptions mEndpoint options au s of
           (Inr res, s') \<Rightarrow> (Inr res, s')
         | (Inl ex, s') \<Rightarrow>
             (let err = parseResponseError ex
              in case lookup (heapOpts s') reqOptions of
                   None \<Rightarrow> (Inl (typeError_undefined ''method''), s')
                 | Some ro \<Rightarrow>
                     (Inl (ex\<lparr>e_message := (case err of Inl e \<Rightarrow> Self | Inr m \<Rightarrow> Text m)\<rparr>),
                      s'\<lparr>logged := logged s' @
                           [(Error, [LStr ''PayPal.makeRequest'', opt_arg (o_method ro),
                                     LStr (o_url ro), norm_arg err])]\<rparr>)))"

text \<open>The calls a state has seen from one method.\<close>

definition calls_from :: "caller \<Rightarrow> paypal \<Rightarrow> wire_request list" where
  "calls_from c s = map snd (filter (\<lambda>p. fst p = c) (sent s))"

text \<open>The credential slot of a family.\<close>

definition slot :: "bool \<Rightarrow> paypal \<Rightarrow> PayPalAuth option" where
  "slot mEndpoint s = (if mEndpoint then mAuth s else auth s)"

section \<open>Notions used to state the properties\<close>

text \<open>The record written to the persisted store for a family (lines 119 and 122).\<close>

definition family_patch :: "bool \<Rightarrow> PayPalAuth \<Rightarrow> db_doc" where
  "family_patch mEndpoint td =
     (if mEndpoint then \<lparr>doc_auth = None, doc_mAuth = Some td\<rparr>
      else \<lparr>doc_auth = Some td, doc_mAuth = None\<rparr>)"

text \<open>
  The token exchange fails when the transport rejects the token request (no response, or a
  response with an error status) or resolves with no body.
\<close>

definition exchange_failed :: "env \<Rightarrow> bool \<Rightarrow> bool" where
  "exchange_failed ev mEndpoint =
     (case axiosRequest ev (token_options (settings ev) mEndpoint) of
        Inl ex \<Rightarrow> True
      | Inr None \<Rightarrow> True
      | Inr (Some res) \<Rightarrow> False)"

text \<open>
  The validity check in the words of the specification (\<open>getValid\<close>): a credential is
  valid when it is present and \<open>expiresAt > now\<close>.
\<close>

definition token_valid :: "PayPalAuth option \<Rightarrow> int \<Rightarrow> bool" where
  "token_valid au now = (case au of None \<Rightarrow> False | Some a \<Rightarrow> now < expiresAt a)"

text \<open>The number of times \<open>authenticate\<close> has run: it calls the transport once each time.\<close>

definition authenticate_count :: "paypal \<Rightarrow> nat" where
  "authenticate_count s = length (calls_from FromAuthenticate s)"

text \<open>The credential of a family in the persisted store.\<close>

definition persisted :: "bool \<Rightarrow> paypal \<Rightarrow> PayPalAuth option" where
  "persisted mEndpoint s =
     (case appState s ''paypal'' of
        None \<Rightarrow> None
      | Some d \<Rightarrow> if mEndpoint then doc_mAuth d else doc_auth d)"

text \<open>
  The state in which the re-authentication of an expired credential starts: the state of
  the call with the line of line 149 logged.
\<close>

definition noted :: "addr \<Rightarrow> paypal \<Rightarrow> paypal" where
  "noted r s =
     s\<lparr>logged := logged s @
          [(Info, [LStr ''PayPal.makeRequest'', LStr (o_url (heapOpts s ! r)),
                   LStr ''Token expired, will fetch a new one''])]\<rparr>"

text \<open>The state of a call of \<open>makeRequest\<close> when lines 142 to 151 are done.\<close>

definition after_renewal :: "env \<Rightarrow> addr \<Rightarrow> bool \<Rightarrow> paypal \<Rightarrow> paypal" where
  "after_renewal ev r mEndpoint s =
     snd (renew_token ev r mEndpoint (slot mEndpoint s) (snd (cloneDeep r s)))"

text \<open>The entries of the headers object of a request object; none when it has no headers.\<close>

definition headers_of :: "paypal \<Rightarrow> req_obj \<Rightarrow> (string \<times> string) list" where
  "headers_of s ob =
     (case o_headers ob of
        None \<Rightarrow> []
      | Some h \<Rightarrow> (case lookup (heapHdrs s) h of None \<Rightarrow> [] | Some hs \<Rightarrow> hs))"

text \<open>
  The derived copy as a value: what the transport is given for the caller's object \<open>ob\<close>
  when the credential slot holds \<open>cred\<close>.
\<close>

definition outbound :: "settings \<Rightarrow> bool \<Rightarrow> PayPalAuth \<Rightarrow> paypal \<Rightarrow> req_obj \<Rightarrow> wire_request" where
  "outbound cfg mEndpoint cred s ob =
     \<lparr>w_method = o_method ob,
      w_url = (if take 4 (o_url ob) \<noteq> ''http'' then familyBaseUrl cfg mEndpoint @ o_url ob
               else o_url ob),
      w_headers =
        Some ((if o_returnRepresentation ob = Some True
               then AList.update ''Prefer'' ''return=representation'' else id)
                (AList.update ''Authorization'' (''Bearer '' @ tpl (accessToken cred))
                   (headers_of s ob))),
      w_data = o_data ob,
      w_returnRepresentation =
        (if o_returnRepresentation ob = Some True then None else o_returnRepresentation ob),
      w_timeout = None,
      w_auth = None\<rparr>"

text \<open>What the catch block of \<open>makeRequest\<close> throws for a caught error.\<close>

definition rethrown :: "js_error \<Rightarrow> js_error" where
  "rethrown ex =
     ex\<lparr>e_message := (case parseResponseError ex of Inl e \<Rightarrow> Self | Inr m \<Rightarrow> Text m)\<rparr>"

section \<open>Concrete inputs\<close>

definition ex_cfg :: settings where
  "ex_cfg = \<lparr>baseUrl = ''https://api.paypal.com/'', mBaseUrl = ''https://api-m.paypal.com/'',
             clientId = ''id'', clientSecret = ''secret'', tokenTimeout = 5000\<rparr>"

text \<open>A caller's request: a relative URL, its own headers object, the representation flag.\<close>

definition ex_plans :: req_obj where
  "ex_plans = \<lparr>o_method = Some ''PATCH'', o_url = ''v1/billing/plans/P-1'', o_headers = Some 0,
               o_data = Some ''[]'', o_returnRepresentation = Some True\<rparr>"

definition ex_state :: "PayPalAuth option \<Rightarrow> int \<Rightarrow> paypal" where
  "ex_state cred now =
     \<lparr>auth = cred, mAuth = None, appState = Map.empty, clock = now, sent = [], logged = [],
      heapOpts = [ex_plans], heapHdrs = [[(''Accept'', ''application/json'')]]\<rparr>"

definition st_absent :: paypal where
  "st_absent = ex_state None 998"

definition st_expired :: paypal where
  "st_expired = ex_state (Some \<lparr>accessToken = Some ''old'', expiresAt = 900\<rparr>) 998"

definition net_err :: js_error where
  "net_err = \<lparr>e_kind = AxiosError, e_message = Text ''Network Error'', e_response = None,
              e_json = ''{}''\<rparr>"

definition err_422 :: js_error where
  "err_422 =
     \<lparr>e_kind = AxiosError, e_message = Text ''Request failed with status code 422'',
      e_response = Some \<lparr>r_status = Some 422,
                         r_data = Some \<lparr>d_name = Some ''VALIDATION_ERROR'', d_message = None,
                                        d_details = Some [\<lparr>issue = Some ''DUPLICATE'',
                                                           description = Some ''already exists''\<rparr>]\<rparr>\<rparr>,
      e_json = ''{}''\<rparr>"

definition tok_res :: "string option \<Rightarrow> int option \<Rightarrow> response" where
  "tok_res a e = \<lparr>access_token = a, expires_in = e, r_other = []\<rparr>"

definition api_res :: response where
  "api_res = \<lparr>access_token = None, expires_in = None, r_other = ''plan''\<rparr>"

text \<open>
  A world: what the token request gives, what any other request gives, whether the store
  rejects a write. A transport call takes two seconds.
\<close>

definition ex_env :: "(js_error + response option) \<Rightarrow> (js_error + response option) \<Rightarrow> js_error option \<Rightarrow> env" where
  "ex_env tok api db =
     \<lparr>settings = ex_cfg,
      axiosRequest = (\<lambda>w. if w_auth w = None then api else tok),
      axiosSeconds = (\<lambda>w. 2),
      appStateFails = (\<lambda>k d. db)\<rparr>"

definition ev_ok :: env where
  "ev_ok = ex_env (Inr (Some (tok_res (Some ''abc'') (Some 3600)))) (Inr (Some api_res)) None"

definition ev_down :: env where
  "ev_down = ex_env (Inl net_err) (Inl net_err) None"

definition ev_auth_down :: env where
  "ev_auth_down = ex_env (Inl net_err) (Inr (Some api_res)) None"

definition ev_zero :: env where
  "ev_zero = ex_env (Inr (Some (tok_res (Some ''abc'') (Some 0)))) (Inr (Some api_res)) None"

definition ev_bare :: env where
  "ev_bare = ex_env (Inr (Some (tok_res None None))) (Inr (Some api_res)) None"

definition ev_db_down :: env where
  "ev_db_down = ex_env (Inr (Some (tok_res (Some ''abc'') (Some 3600)))) (Inr (Some api_res)) (Some net_err)"

text \<open>The state after a token response with a lifetime of zero, received at time 1000.\<close>

definition st_after_zero :: paypal where
  "st_after_zero = snd (authenticate ev_zero False st_absent)"

section \<open>Auxiliary facts\<close>

subsection \<open>authenticate\<close>

lemma authenticate_try_sent:
  "sent (snd (authenticate_try ev m s)) = sent s @ [(FromAuthenticate, token_options (settings ev) m)]"
  by (simp add: authenticate_try_def Let_def split: sum.splits option.splits)

lemma authenticate_sent:
  "sent (snd (authenticate ev m s)) = sent s @ [(FromAuthenticate, token_options (settings ev) m)]"
  using authenticate_try_sent [of ev m s]
  by (cases "authenticate_try ev m s") (simp add: authenticate_def split: sum.splits)

lemma authenticate_try_heap:
  "heapOpts (snd (authenticate_try ev m s)) = heapOpts s \<and> heapHdrs (snd (authenticate_try ev m s)) = heapHdrs s"
  by (simp add: authenticate_try_def Let_def split: sum.splits option.splits)

lemma authenticate_heap:
  "heapOpts (snd (authenticate ev m s)) = heapOpts s \<and> heapHdrs (snd (authenticate ev m s)) = heapHdrs s"
  using authenticate_try_heap [of ev m s]
  by (cases "authenticate_try ev m s") (simp add: authenticate_def split: sum.splits)

lemma authenticate_try_clock:
  "clock (snd (authenticate_try ev m s)) = clock s + int (axiosSeconds ev (token_options (settings ev) m))"
  by (simp add: authenticate_try_def Let_def split: sum.splits option.splits)

lemma authenticate_clock:
  "clock (snd (authenticate ev m s)) = clock s + int (axiosSeconds ev (token_options (settings ev) m))"
  using authenticate_try_clock [of ev m s]
  by (cases "authenticate_try ev m s") (simp add: authenticate_def split: sum.splits)

lemma authenticate_total: "\<exists>b. fst (authenticate ev m s) = Inr b"
  by (cases "authenticate_try ev m s") (auto simp add: authenticate_def split: sum.splits)

lemma authenticate_try_exchange_failed:
  assumes "\<And>res. axiosRequest ev (token_options (settings ev) m) \<noteq> Inr (Some res)"
  shows "\<exists>ex. fst (authenticate_try ev m s) = Inl ex"
    and "auth (snd (authenticate_try ev m s)) = auth s"
    and "mAuth (snd (authenticate_try ev m s)) = mAuth s"
    and "appState (snd (authenticate_try ev m s)) = appState s"
  using assms
  by (auto simp add: authenticate_try_def Let_def split: sum.splits option.splits)

lemma authenticate_exchange_failed:
  assumes "\<And>res. axiosRequest ev (token_options (settings ev) m) \<noteq> Inr (Some res)"
  shows "fst (authenticate ev m s) = Inr False"
    and "auth (snd (authenticate ev m s)) = auth s"
    and "mAuth (snd (authenticate ev m s)) = mAuth s"
    and "appState (snd (authenticate ev m s)) = appState s"
  using authenticate_try_exchange_failed [OF assms, of s]
  by (cases "authenticate_try ev m s"; auto simp: authenticate_def split: sum.splits)+

lemma authenticate_try_resolved:
  assumes "axiosRequest ev (token_options (settings ev) m) = Inr (Some res)"
  shows "slot m (snd (authenticate_try ev m s)) = Some (tokenData res (clock (snd (authenticate_try ev m s))))"
    and "(\<exists>u. fst (authenticate_try ev m s) = Inr u) =
         (appStateFails ev ''paypal'' (family_patch m (tokenData res (clock (snd (authenticate_try ev m s))))) = None)"
    and "fst (authenticate_try ev m s) = Inr u \<Longrightarrow> appState (snd (authenticate_try ev m s)) =
           appState_set (appState s) ''paypal'' (family_patch m (tokenData res (clock (snd (authenticate_try ev m s)))))"
  using assms
  by (auto simp add: authenticate_try_def Let_def slot_def family_patch_def split: sum.splits option.splits)

lemma authenticate_resolved:
  assumes "axiosRequest ev (token_options (settings ev) m) = Inr (Some res)"
  shows "slot m (snd (authenticate ev m s)) = Some (tokenData res (clock (snd (authenticate ev m s))))"
    and "fst (authenticate ev m s) =
         Inr (appStateFails ev ''paypal'' (family_patch m (tokenData res (clock (snd (authenticate ev m s))))) = None)"
    and "fst (authenticate ev m s) = Inr True \<Longrightarrow> appState (snd (authenticate ev m s)) =
           appState_set (appState s) ''paypal'' (family_patch m (tokenData res (clock (snd (authenticate ev m s)))))"
  using authenticate_try_resolved [OF assms, of s]
  by (cases "authenticate_try ev m s"; cases "fst (authenticate_try ev m s)"; auto simp: authenticate_def slot_def split: sum.splits)+

subsection \<open>The store of request objects\<close>

lemma cloneDeep_frame:
  "auth (snd (cloneDeep r s)) = auth s" "mAuth (snd (cloneDeep r s)) = mAuth s"
  "appState (snd (cloneDeep r s)) = appState s" "clock (snd (cloneDeep r s)) = clock s"
  "sent (snd (cloneDeep r s)) = sent s" "logged (snd (cloneDeep r s)) = logged s"
  by (simp_all add: cloneDeep_def split: option.splits)

lemma cloneDeep_heap:
  "take (length (heapOpts s)) (heapOpts (snd (cloneDeep r s))) = heapOpts s"
  "take (length (heapHdrs s)) (heapHdrs (snd (cloneDeep r s))) = heapHdrs s"
  "length (heapOpts s) \<le> length (heapOpts (snd (cloneDeep r s)))"
  "length (heapHdrs s) \<le> length (heapHdrs (snd (cloneDeep r s)))"
  by (simp_all add: cloneDeep_def split: option.splits)

text \<open>the copy is fresh and its headers object, if any, is fresh\<close>
lemma cloneDeep_fresh:
  assumes "fst (cloneDeep r s) = Some oa"
  shows "oa = length (heapOpts s)" and "oa < length (heapOpts (snd (cloneDeep r s)))"
    and "o_headers (heapOpts (snd (cloneDeep r s)) ! oa) = Some h \<Longrightarrow>
           length (heapHdrs s) \<le> h \<and> h < length (heapHdrs (snd (cloneDeep r s)))"
  using assms
  by (auto simp add: cloneDeep_def lookup_def split: option.splits if_splits)

lemma cloneDeep_copy:
  assumes "r < length (heapOpts s)"
  shows "fst (cloneDeep r s) = Some (length (heapOpts s))"
    and "o_url (heapOpts (snd (cloneDeep r s)) ! length (heapOpts s)) = o_url (heapOpts s ! r)"
    and "o_method (heapOpts (snd (cloneDeep r s)) ! length (heapOpts s)) = o_method (heapOpts s ! r)"
    and "o_data (heapOpts (snd (cloneDeep r s)) ! length (heapOpts s)) = o_data (heapOpts s ! r)"
    and "o_returnRepresentation (heapOpts (snd (cloneDeep r s)) ! length (heapOpts s)) = o_returnRepresentation (heapOpts s ! r)"
  using assms
  by (auto simp add: cloneDeep_def lookup_def split: option.splits if_splits)

lemma renew_token_heap:
  "heapOpts (snd (renew_token ev r m au s)) = heapOpts s \<and> heapHdrs (snd (renew_token ev r m au s)) = heapHdrs s"
proof (cases au)
  case None
  then show ?thesis
    using authenticate_heap [of ev m s]
    by (cases "authenticate ev m s") (auto simp: renew_token_def split: sum.splits)
next
  case (Some a)
  show ?thesis
  proof (cases "expiresAt a \<le> clock s \<and> r < length (heapOpts s)")
    case True
    define s1 where "s1 = s\<lparr>logged := logged s @
                             [(Info, [LStr ''PayPal.makeRequest'', LStr (o_url (heapOpts s ! r)),
                                      LStr ''Token expired, will fetch a new one''])]\<rparr>"
    have "heapOpts (snd (authenticate ev m s1)) = heapOpts s \<and> heapHdrs (snd (authenticate ev m s1)) = heapHdrs s"
      using authenticate_heap [of ev m s1] by (simp add: s1_def)
    then show ?thesis using True Some
      by (cases "authenticate ev m s1") (auto simp: renew_token_def lookup_def s1_def Let_def split: sum.splits)
  next
    case False
    then show ?thesis using Some by (auto simp: renew_token_def lookup_def)
  qed
qed

lemma build_request_heap:
  assumes "\<And>oa. options = Some oa \<Longrightarrow> n \<le> oa"
    and "\<And>oa h. options = Some oa \<Longrightarrow> oa < length (heapOpts s) \<Longrightarrow> o_headers (heapOpts s ! oa) = Some h \<Longrightarrow> k \<le> h"
    and "k \<le> length (heapHdrs s)"
  shows "take n (heapOpts (snd (build_request ev m options s))) = take n (heapOpts s)"
    and "take k (heapHdrs (snd (build_request ev m options s))) = take k (heapHdrs s)"
proof -
  show "take n (heapOpts (snd (build_request ev m options s))) = take n (heapOpts s)"
  proof (cases options)
    case None
    then show ?thesis by (simp add: build_request_def)
  next
    case (Some oa)
    with assms(1) have "n \<le> oa" by simp
    then show ?thesis using Some
      by (auto simp add: build_request_def lookup_def set_opt_def set_hdr_def Let_def
          split: option.splits if_splits prod.splits)
  qed
  show "take k (heapHdrs (snd (build_request ev m options s))) = take k (heapHdrs s)"
  proof (cases options)
    case None
    then show ?thesis by (simp add: build_request_def)
  next
    case (Some oa)
    show ?thesis
    proof (cases "oa < length (heapOpts s)")
      case False
      then show ?thesis using Some by (simp add: build_request_def lookup_def)
    next
      case True
      note inb = True
      show ?thesis
      proof (cases "o_headers (heapOpts s ! oa)")
        case None
        then show ?thesis using Some inb assms(3)
          by (auto simp add: build_request_def lookup_def set_opt_def set_hdr_def Let_def
              split: option.splits if_splits prod.splits)
      next
        case (Some h)
        with assms(2) [OF \<open>options = Some oa\<close> inb] have "k \<le> h" by simp
        then show ?thesis using Some \<open>options = Some oa\<close> inb
          by (auto simp add: build_request_def lookup_def set_opt_def set_hdr_def Let_def
              split: option.splits if_splits prod.splits)
      qed
    qed
  qed
qed

lemma dispatch_heap:
  "heapOpts (snd (dispatch ev oa s)) = heapOpts s \<and> heapHdrs (snd (dispatch ev oa s)) = heapHdrs s"
  by (simp add: dispatch_def Let_def split: sum.splits)

lemma makeRequest_try_heap:
  assumes "\<And>oa. options = Some oa \<Longrightarrow> n \<le> oa"
    and "\<And>oa h. options = Some oa \<Longrightarrow> oa < length (heapOpts s) \<Longrightarrow> o_headers (heapOpts s ! oa) = Some h \<Longrightarrow> k \<le> h"
    and "k \<le> length (heapHdrs s)"
  shows "take n (heapOpts (snd (makeRequest_try ev r m options au s))) = take n (heapOpts s)"
    and "take k (heapHdrs (snd (makeRequest_try ev r m options au s))) = take k (heapHdrs s)"
proof -
  obtain x s1 where rt: "renew_token ev r m au s = (x, s1)" by (cases "renew_token ev r m au s")
  have h1: "heapOpts s1 = heapOpts s" "heapHdrs s1 = heapHdrs s"
    using renew_token_heap [of ev r m au s] rt by simp_all
  obtain y s2 where br: "build_request ev m options s1 = (y, s2)" by (cases "build_request ev m options s1")
  have h2: "take n (heapOpts s2) = take n (heapOpts s)" "take k (heapHdrs s2) = take k (heapHdrs s)"
    using build_request_heap [of options n s1 k ev m] assms br h1 by simp_all
  have h3: "\<And>oa. heapOpts (snd (dispatch ev oa s2)) = heapOpts s2 \<and> heapHdrs (snd (dispatch ev oa s2)) = heapHdrs s2"
    by (rule dispatch_heap)
  show "take n (heapOpts (snd (makeRequest_try ev r m options au s))) = take n (heapOpts s)"
    using rt br h1 h2 h3 by (cases x; cases y) (simp_all add: makeRequest_try_def)
  show "take k (heapHdrs (snd (makeRequest_try ev r m options au s))) = take k (heapHdrs s)"
    using rt br h1 h2 h3 by (cases x; cases y) (simp_all add: makeRequest_try_def)
qed

lemma makeRequest_heap_via_try:
  "heapOpts (snd (makeRequest ev r m s0)) =
     heapOpts (snd (makeRequest_try ev r m (fst (cloneDeep r s0)) (slot m (snd (cloneDeep r s0))) (snd (cloneDeep r s0))))
   \<and> heapHdrs (snd (makeRequest ev r m s0)) =
     heapHdrs (snd (makeRequest_try ev r m (fst (cloneDeep r s0)) (slot m (snd (cloneDeep r s0))) (snd (cloneDeep r s0))))"
  by (cases "cloneDeep r s0";
      cases "makeRequest_try ev r m (fst (cloneDeep r s0)) (slot m (snd (cloneDeep r s0))) (snd (cloneDeep r s0))")
     (auto simp add: makeRequest_def slot_def Let_def split: sum.splits option.splits)

lemma makeRequest_frame:
  "take (length (heapOpts s0)) (heapOpts (snd (makeRequest ev r m s0))) = heapOpts s0
   \<and> take (length (heapHdrs s0)) (heapHdrs (snd (makeRequest ev r m s0))) = heapHdrs s0"
proof -
  let ?c = "cloneDeep r s0"
  have a1: "\<And>oa. fst ?c = Some oa \<Longrightarrow> length (heapOpts s0) \<le> oa"
    using cloneDeep_fresh(1) [of r s0] by simp
  have a2: "\<And>oa h. fst ?c = Some oa \<Longrightarrow> oa < length (heapOpts (snd ?c)) \<Longrightarrow>
              o_headers (heapOpts (snd ?c) ! oa) = Some h \<Longrightarrow> length (heapHdrs s0) \<le> h"
    using cloneDeep_fresh(3) [of r s0] by blast
  have a3: "length (heapHdrs s0) \<le> length (heapHdrs (snd ?c))"
    by (rule cloneDeep_heap(4))
  note t = makeRequest_try_heap [of "fst ?c" "length (heapOpts s0)" "snd ?c" "length (heapHdrs s0)" ev r m "slot m (snd ?c)", OF a1 a2 a3]
  show ?thesis
    using t cloneDeep_heap(1,2) [of s0 r] makeRequest_heap_via_try [of ev r m s0] by simp
qed

subsection \<open>The steps of makeRequest\<close>

lemma renew_token_ok:
  assumes "r < length (heapOpts s)"
  shows "fst (renew_token ev r m au s) = Inr ()"
proof (cases au)
  case None
  obtain b where "fst (authenticate ev m s) = Inr b" using authenticate_total by blast
  then show ?thesis using None
    by (cases "authenticate ev m s") (auto simp: renew_token_def)
next
  case (Some a)
  define s1 where "s1 = s\<lparr>logged := logged s @
                             [(Info, [LStr ''PayPal.makeRequest'', LStr (o_url (heapOpts s ! r)),
                                      LStr ''Token expired, will fetch a new one''])]\<rparr>"
  obtain b where "fst (authenticate ev m s1) = Inr b" using authenticate_total by blast
  then show ?thesis using Some assms
    by (cases "authenticate ev m s1") (auto simp: renew_token_def lookup_def s1_def Let_def)
qed

lemma renew_token_state:
  assumes "r < length (heapOpts s)"
  shows "snd (renew_token ev r m au s) =
           (if token_valid au (clock s) then s
            else if au = None then snd (authenticate ev m s)
            else snd (authenticate ev m (noted r s)))"
proof (cases au)
  case None
  then show ?thesis
    by (cases "authenticate ev m s") (auto simp: renew_token_def token_valid_def split: sum.splits)
next
  case (Some a)
  then show ?thesis using assms
    by (cases "authenticate ev m (noted r s)")
       (auto simp: renew_token_def token_valid_def lookup_def noted_def Let_def split: sum.splits)
qed

lemma noted_fields:
  "auth (noted r s) = auth s" "mAuth (noted r s) = mAuth s" "appState (noted r s) = appState s"
  "clock (noted r s) = clock s" "sent (noted r s) = sent s"
  "heapOpts (noted r s) = heapOpts s" "heapHdrs (noted r s) = heapHdrs s"
  by (simp_all add: noted_def)

lemma renew_token_sent:
  assumes "r < length (heapOpts s)"
  shows "sent (snd (renew_token ev r m au s)) =
           sent s @ (if token_valid au (clock s) then [] else [(FromAuthenticate, token_options (settings ev) m)])"
  by (simp add: renew_token_state [OF assms] authenticate_sent noted_fields)

lemma renew_token_sent_any:
  "sent (snd (renew_token ev r m au s)) = sent s \<or>
   sent (snd (renew_token ev r m au s)) = sent s @ [(FromAuthenticate, token_options (settings ev) m)]"
proof (cases "r < length (heapOpts s)")
  case True
  then show ?thesis by (simp add: renew_token_sent)
next
  case False
  show ?thesis
  proof (cases au)
    case None
    then show ?thesis using authenticate_sent [of ev m s]
      by (cases "authenticate ev m s") (auto simp: renew_token_def split: sum.splits)
  next
    case (Some a)
    then show ?thesis using False by (auto simp: renew_token_def lookup_def)
  qed
qed

lemma renew_token_failed:
  assumes "r < length (heapOpts s)" and "exchange_failed ev m"
  shows "auth (snd (renew_token ev r m au s)) = auth s"
    and "mAuth (snd (renew_token ev r m au s)) = mAuth s"
    and "appState (snd (renew_token ev r m au s)) = appState s"
proof -
  have nf: "\<And>res. axiosRequest ev (token_options (settings ev) m) \<noteq> Inr (Some res)"
    using assms(2) by (auto simp: exchange_failed_def split: sum.splits option.splits)
  show "auth (snd (renew_token ev r m au s)) = auth s"
    by (simp add: renew_token_state [OF assms(1)] authenticate_exchange_failed(2) [OF nf] noted_fields)
  show "mAuth (snd (renew_token ev r m au s)) = mAuth s"
    by (simp add: renew_token_state [OF assms(1)] authenticate_exchange_failed(3) [OF nf] noted_fields)
  show "appState (snd (renew_token ev r m au s)) = appState s"
    by (simp add: renew_token_state [OF assms(1)] authenticate_exchange_failed(4) [OF nf] noted_fields)
qed

lemma renew_token_resolved:
  assumes "r < length (heapOpts s)" and "\<not> token_valid au (clock s)"
    and "axiosRequest ev (token_options (settings ev) m) = Inr (Some res)"
  shows "slot m (snd (renew_token ev r m au s)) =
           Some (tokenData res (clock s + int (axiosSeconds ev (token_options (settings ev) m))))"
  using assms(2)
  by (simp add: renew_token_state [OF assms(1)] authenticate_resolved(1) [OF assms(3)]
      authenticate_clock noted_fields)

text \<open>build_request on a copy whose headers reference, if any, is a live headers object\<close>
lemma build_request_result:
  assumes oa: "oa < length (heapOpts s)"
    and hd: "\<And>h. o_headers (heapOpts s ! oa) = Some h \<Longrightarrow> h < length (heapHdrs s)"
    and cred: "slot m s = Some cred"
  shows "fst (build_request ev m (Some oa) s) = Inr oa"
    and "snapshot (snd (build_request ev m (Some oa) s)) (heapOpts (snd (build_request ev m (Some oa) s)) ! oa)
           = outbound (settings ev) m cred s (heapOpts s ! oa)"
    and "sent (snd (build_request ev m (Some oa) s)) = sent s"
    and "clock (snd (build_request ev m (Some oa) s)) = clock s"
    and "auth (snd (build_request ev m (Some oa) s)) = auth s"
    and "mAuth (snd (build_request ev m (Some oa) s)) = mAuth s"
    and "appState (snd (build_request ev m (Some oa) s)) = appState s"
    and "logged (snd (build_request ev m (Some oa) s)) = logged s"
proof -
  show "fst (build_request ev m (Some oa) s) = Inr oa"
    using oa cred
    by (auto simp add: build_request_def lookup_def slot_def set_opt_def set_hdr_def Let_def
        split: option.splits prod.splits if_splits)
  show "snapshot (snd (build_request ev m (Some oa) s)) (heapOpts (snd (build_request ev m (Some oa) s)) ! oa)
           = outbound (settings ev) m cred s (heapOpts s ! oa)"
  proof (cases "o_headers (heapOpts s ! oa)")
    case None
    then show ?thesis using oa cred
      by (auto simp add: build_request_def lookup_def slot_def set_opt_def set_hdr_def Let_def
          snapshot_def outbound_def headers_of_def nth_append
          split: option.splits if_splits)
  next
    case (Some h)
    with hd have "h < length (heapHdrs s)" by simp
    then show ?thesis using oa cred Some
      by (auto simp add: build_request_def lookup_def slot_def set_opt_def set_hdr_def Let_def
          snapshot_def outbound_def headers_of_def
          split: option.splits if_splits)
  qed
  show "sent (snd (build_request ev m (Some oa) s)) = sent s"
    "clock (snd (build_request ev m (Some oa) s)) = clock s"
    "auth (snd (build_request ev m (Some oa) s)) = auth s"
    "mAuth (snd (build_request ev m (Some oa) s)) = mAuth s"
    "appState (snd (build_request ev m (Some oa) s)) = appState s"
    "logged (snd (build_request ev m (Some oa) s)) = logged s"
    by (auto simp add: build_request_def lookup_def slot_def set_opt_def set_hdr_def Let_def
        split: option.splits prod.splits if_splits)
qed

lemma build_request_no_credential:
  assumes "slot m s = None"
  shows "\<exists>prop. fst (build_request ev m options s) = Inl (typeError_undefined prop)"
    and "sent (snd (build_request ev m options s)) = sent s"
  using assms
  by (auto simp add: build_request_def lookup_def slot_def set_opt_def set_hdr_def Let_def
      split: option.splits prod.splits if_splits)

lemma build_request_no_credential_copy:
  assumes "slot m s = None" and "oa < length (heapOpts s)"
  shows "fst (build_request ev m (Some oa) s) = Inl (typeError_undefined ''accessToken'')"
  using assms
  by (auto simp add: build_request_def lookup_def slot_def set_opt_def set_hdr_def Let_def
      split: option.splits prod.splits if_splits)

lemma build_request_sent: "sent (snd (build_request ev m options s)) = sent s"
  by (auto simp add: build_request_def lookup_def slot_def set_opt_def set_hdr_def Let_def
      split: option.splits prod.splits if_splits)

text \<open>the copy of a caller's object gives the same request\<close>
lemma cloneDeep_outbound:
  assumes "r < length (heapOpts s)"
  shows "outbound cfg m cred (snd (cloneDeep r s)) (heapOpts (snd (cloneDeep r s)) ! length (heapOpts s))
           = outbound cfg m cred s (heapOpts s ! r)"
  using assms
  by (auto simp add: cloneDeep_def lookup_def outbound_def headers_of_def nth_append
      split: option.splits if_splits)

lemma cloneDeep_live:
  assumes "r < length (heapOpts s)"
  shows "length (heapOpts s) < length (heapOpts (snd (cloneDeep r s)))"
    and "o_headers (heapOpts (snd (cloneDeep r s)) ! length (heapOpts s)) = Some h \<Longrightarrow> h < length (heapHdrs (snd (cloneDeep r s)))"
    and "length (heapOpts s) \<le> length (heapOpts (snd (cloneDeep r s)))"
  using assms
  by (auto simp add: cloneDeep_def lookup_def split: option.splits if_splits)

lemma build_request_length:
  "length (heapOpts s) \<le> length (heapOpts (snd (build_request ev m options s)))"
  by (auto simp add: build_request_def lookup_def slot_def set_opt_def set_hdr_def Let_def
      split: option.splits prod.splits if_splits)

lemma outbound_heap:
  "heapHdrs s = heapHdrs s' \<Longrightarrow> outbound cfg m cred s ob = outbound cfg m cred s' ob"
  by (simp add: outbound_def headers_of_def cong: option.case_cong)

lemma makeRequest_unfold:
  assumes ct: "cloneDeep r s0 = (options, sc)"
    and rt: "renew_token ev r m (slot m sc) sc = (Inr (), s1)"
    and br: "build_request ev m options s1 = (x, s2)"
    and r: "r < length (heapOpts s2)"
  shows "x = Inl ex \<Longrightarrow> fst (makeRequest ev r m s0) = Inl (rethrown ex) \<and> sent (snd (makeRequest ev r m s0)) = sent s2"
    and "x = Inr oa \<Longrightarrow> sent (snd (makeRequest ev r m s0)) = sent s2 @ [(FromMakeRequest, snapshot s2 (heapOpts s2 ! oa))]
          \<and> fst (makeRequest ev r m s0) =
              (case axiosRequest ev (snapshot s2 (heapOpts s2 ! oa)) of
                 Inl ex \<Rightarrow> Inl (rethrown ex) | Inr res \<Rightarrow> Inr res)"
proof -
  have rt': "renew_token ev r m (if m then mAuth sc else auth sc) sc = (Inr (), s1)"
    using rt by (simp add: slot_def)
  show "x = Inl ex \<Longrightarrow> fst (makeRequest ev r m s0) = Inl (rethrown ex) \<and> sent (snd (makeRequest ev r m s0)) = sent s2"
    using ct rt' br r
    by (simp add: makeRequest_def makeRequest_try_def lookup_def rethrown_def Let_def)
  show "x = Inr oa \<Longrightarrow> sent (snd (makeRequest ev r m s0)) = sent s2 @ [(FromMakeRequest, snapshot s2 (heapOpts s2 ! oa))]
          \<and> fst (makeRequest ev r m s0) =
              (case axiosRequest ev (snapshot s2 (heapOpts s2 ! oa)) of
                 Inl ex \<Rightarrow> Inl (rethrown ex) | Inr res \<Rightarrow> Inr res)"
    using ct rt' br r
    by (simp add: makeRequest_def makeRequest_try_def dispatch_def lookup_def rethrown_def Let_def
        split: sum.splits)
qed

lemma makeRequest_run:
  assumes r: "r < length (heapOpts s0)"
  shows "slot m (snd (renew_token ev r m (slot m s0) (snd (cloneDeep r s0)))) = None \<Longrightarrow>
           fst (makeRequest ev r m s0) = Inl (rethrown (typeError_undefined ''accessToken'')) \<and>
           sent (snd (makeRequest ev r m s0)) = sent (snd (renew_token ev r m (slot m s0) (snd (cloneDeep r s0))))"
    and "slot m (snd (renew_token ev r m (slot m s0) (snd (cloneDeep r s0)))) = Some cred \<Longrightarrow>
           sent (snd (makeRequest ev r m s0)) =
             sent (snd (renew_token ev r m (slot m s0) (snd (cloneDeep r s0)))) @
               [(FromMakeRequest, outbound (settings ev) m cred s0 (heapOpts s0 ! r))] \<and>
           fst (makeRequest ev r m s0) =
             (case axiosRequest ev (outbound (settings ev) m cred s0 (heapOpts s0 ! r)) of
                Inl ex \<Rightarrow> Inl (rethrown ex) | Inr res \<Rightarrow> Inr res)"
proof -
  let ?sc = "snd (cloneDeep r s0)"
  let ?oa = "length (heapOpts s0)"
  let ?s1 = "snd (renew_token ev r m (slot m s0) ?sc)"
  have ct: "cloneDeep r s0 = (Some ?oa, ?sc)"
    using cloneDeep_copy(1) [OF r] by (cases "cloneDeep r s0") simp
  have slot_sc: "slot m ?sc = slot m s0"
    by (simp add: slot_def cloneDeep_frame)
  have r_sc: "r < length (heapOpts ?sc)"
    using r cloneDeep_live(3) [OF r] by simp
  have rt: "renew_token ev r m (slot m ?sc) ?sc = (Inr (), ?s1)"
    using renew_token_ok [OF r_sc, of ev m "slot m s0"] slot_sc
    by (cases "renew_token ev r m (slot m s0) ?sc") simp
  have h1: "heapOpts ?s1 = heapOpts ?sc" "heapHdrs ?s1 = heapHdrs ?sc"
    using renew_token_heap [of ev r m "slot m s0" ?sc] by simp_all
  have oa1: "?oa < length (heapOpts ?s1)"
    using cloneDeep_live(1) [OF r] h1 by simp
  have hd1: "\<And>h. o_headers (heapOpts ?s1 ! ?oa) = Some h \<Longrightarrow> h < length (heapHdrs ?s1)"
    using cloneDeep_live(2) [OF r] h1 by simp
  let ?b = "build_request ev m (Some ?oa) ?s1"
  have br: "build_request ev m (Some ?oa) ?s1 = (fst ?b, snd ?b)" by simp
  have r2: "r < length (heapOpts (snd ?b))"
    using build_request_length [of ?s1 ev m "Some ?oa"] oa1 r by simp
  show "slot m ?s1 = None \<Longrightarrow>
           fst (makeRequest ev r m s0) = Inl (rethrown (typeError_undefined ''accessToken'')) \<and>
           sent (snd (makeRequest ev r m s0)) = sent ?s1"
    using makeRequest_unfold(1) [OF ct rt br r2, of "typeError_undefined ''accessToken''"]
      build_request_no_credential_copy [of m ?s1 ?oa ev] oa1 build_request_sent [of ev m "Some ?oa" ?s1]
    by simp
  show "slot m ?s1 = Some cred \<Longrightarrow>
           sent (snd (makeRequest ev r m s0)) =
             sent ?s1 @ [(FromMakeRequest, outbound (settings ev) m cred s0 (heapOpts s0 ! r))] \<and>
           fst (makeRequest ev r m s0) =
             (case axiosRequest ev (outbound (settings ev) m cred s0 (heapOpts s0 ! r)) of
                Inl ex \<Rightarrow> Inl (rethrown ex) | Inr res \<Rightarrow> Inr res)"
  proof -
    assume cred: "slot m ?s1 = Some cred"
    have ob: "outbound (settings ev) m cred ?s1 (heapOpts ?s1 ! ?oa) = outbound (settings ev) m cred s0 (heapOpts s0 ! r)"
      using cloneDeep_outbound [OF r, of "settings ev" m cred] h1(1)
        outbound_heap [OF h1(2), of "settings ev" m cred "heapOpts ?sc ! ?oa"]
      by simp
    note b = build_request_result [OF oa1 hd1 cred, of ev]
    show ?thesis
      using makeRequest_unfold(2) [OF ct rt br r2, of ?oa] b(1) b(2) b(3) ob by simp
  qed
qed

subsection \<open>parseResponseError\<close>

lemma push_issues_map: "push_issues acc ds = acc @ map render_detail ds"
  by (induction ds arbitrary: acc) (simp_all add: render_detail_def)

lemma name_or_message_cases:
  "name_or_message dat =
     (if truthy_str (d_name dat) then [tpl (d_name dat)]
      else if truthy_str (d_message dat) then [tpl (d_message dat)] else [])"
  by (cases "d_name dat"; cases "d_message dat") (auto simp: name_or_message_def truthy_str_def tpl_def)

lemma parseResponseError_body:
  assumes "e_response err = Some resp" and "r_data resp = Some dat"
  shows "parseResponseError err = Inr (normalized resp dat (e_json err))"
  using assms
  by (auto simp: parseResponseError_def normalized_def status_text_def name_or_message_cases
      detail_texts_def push_issues_map Let_def split: option.splits)

subsection \<open>The calls of one makeRequest\<close>

lemmas ex_defs = ex_cfg_def ex_plans_def ex_state_def st_absent_def st_expired_def net_err_def
  tok_res_def api_res_def ex_env_def ev_ok_def ev_down_def ev_auth_down_def ev_zero_def ev_bare_def ev_db_down_def

lemmas run_defs = makeRequest_def makeRequest_try_def renew_token_def build_request_def dispatch_def
  cloneDeep_def authenticate_def authenticate_try_def token_options_def tokenData_def expiresIn_def
  lookup_def set_opt_def set_hdr_def snapshot_def familyBaseUrl_def endpointLog_def parseResponseError_def
  typeError_undefined_def newError_def tpl_def slot_def calls_from_def norm_arg_def opt_arg_def appState_set_def Let_def

lemma authenticate_false_store:
  assumes "fst (authenticate ev m s) = Inr False"
  shows "appState (snd (authenticate ev m s)) = appState s"
  using assms
  by (auto simp add: authenticate_def authenticate_try_def Let_def split: sum.splits option.splits if_splits)

lemma persisted_appState:
  "appState s' = appState_set db ''paypal'' (family_patch m td) \<Longrightarrow> persisted m s' = Some td"
  by (simp add: persisted_def appState_set_def family_patch_def split: option.splits)

lemma expiresIn_lifetime:
  assumes "expires_in res = Some E \<and> E \<noteq> 0 \<or> (expires_in res = None \<or> expires_in res = Some 0) \<and> E = 3600"
  shows "expiresIn res = E"
  using assms by (auto simp: expiresIn_def)

lemma makeRequest_sent_shape:
  "sent (snd (makeRequest ev r m s)) = sent s
   \<or> sent (snd (makeRequest ev r m s)) = sent s @ [(FromAuthenticate, token_options (settings ev) m)]
   \<or> (\<exists>w. sent (snd (makeRequest ev r m s)) = sent s @ [(FromMakeRequest, w)])
   \<or> (\<exists>w. sent (snd (makeRequest ev r m s)) =
           sent s @ [(FromAuthenticate, token_options (settings ev) m), (FromMakeRequest, w)])"
proof -
  obtain options sc where ct: "cloneDeep r s = (options, sc)" by (cases "cloneDeep r s")
  have c: "sent sc = sent s" using cloneDeep_frame(5) [of r s] ct by simp
  obtain x s1 where rt: "renew_token ev r m (if m then mAuth sc else auth sc) sc = (x, s1)"
    by (cases "renew_token ev r m (if m then mAuth sc else auth sc) sc")
  have r1: "sent s1 = sent s \<or> sent s1 = sent s @ [(FromAuthenticate, token_options (settings ev) m)]"
    using renew_token_sent_any [of ev r m "if m then mAuth sc else auth sc" sc] rt c by simp
  obtain y s2 where br: "build_request ev m options s1 = (y, s2)"
    by (cases "build_request ev m options s1")
  have b: "sent s2 = sent s1" using build_request_sent [of ev m options s1] br by simp
  have "sent (snd (makeRequest ev r m s)) = sent s1 \<or>
        (\<exists>w. sent (snd (makeRequest ev r m s)) = sent s1 @ [(FromMakeRequest, w)])"
    using ct rt br b
    by (cases x; cases y)
       (auto simp add: makeRequest_def makeRequest_try_def dispatch_def Let_def
          split: sum.splits option.splits)
  with r1 show ?thesis by auto
qed

lemma makeRequest_count_le:
  "authenticate_count (snd (makeRequest ev r m s)) \<le> Suc (authenticate_count s)"
  using makeRequest_sent_shape [of ev r m s]
  by (auto simp add: authenticate_count_def calls_from_def)

lemma after_renewal_sent:
  assumes "r < length (heapOpts s)"
  shows "sent (after_renewal ev r m s) =
           sent s @ (if token_valid (slot m s) (clock s) then []
                     else [(FromAuthenticate, token_options (settings ev) m)])"
proof -
  have "r < length (heapOpts (snd (cloneDeep r s)))"
    using assms cloneDeep_live(3) [OF assms] by simp
  from renew_token_sent [OF this] show ?thesis
    by (simp add: after_renewal_def cloneDeep_frame)
qed

lemma after_renewal_valid:
  assumes "r < length (heapOpts s)" and "token_valid (slot m s) (clock s)"
  shows "slot m (after_renewal ev r m s) = slot m s"
proof -
  have "r < length (heapOpts (snd (cloneDeep r s)))"
    using assms cloneDeep_live(3) [OF assms(1)] by simp
  from renew_token_state [OF this] show ?thesis using assms(2)
    by (simp add: after_renewal_def cloneDeep_frame slot_def)
qed

lemma after_renewal_failed:
  assumes "r < length (heapOpts s)" and "exchange_failed ev m"
  shows "slot m (after_renewal ev r m s) = slot m s"
proof -
  have "r < length (heapOpts (snd (cloneDeep r s)))"
    using assms cloneDeep_live(3) [OF assms(1)] by simp
  from renew_token_failed(1,2) [OF this assms(2)] show ?thesis
    by (cases m) (simp_all add: after_renewal_def cloneDeep_frame slot_def)
qed

lemma makeRequest_sent:
  assumes "r < length (heapOpts s)"
  shows "sent (snd (makeRequest ev r m s)) =
           sent (after_renewal ev r m s) @
             (case slot m (after_renewal ev r m s) of
                None \<Rightarrow> []
              | Some cred \<Rightarrow> [(FromMakeRequest, outbound (settings ev) m cred s (heapOpts s ! r))])"
  using makeRequest_run [OF assms, of m ev]
  by (cases "slot m (after_renewal ev r m s)") (simp_all add: after_renewal_def)

lemma makeRequest_authenticate_count:
  assumes "r < length (heapOpts s)"
  shows "authenticate_count (snd (makeRequest ev r m s)) =
           authenticate_count s + (if token_valid (slot m s) (clock s) then 0 else 1)"
  by (simp add: authenticate_count_def calls_from_def makeRequest_sent [OF assms]
      after_renewal_sent [OF assms] split: option.splits)

lemma outbound_authorization:
  "\<exists>hs. w_headers (outbound cfg m cred s ob) = Some hs
        \<and> map_of hs ''Authorization'' = Some (''Bearer '' @ tpl (accessToken cred))"
  by (simp add: outbound_def update_conv')

lemma outbound_representation:
  assumes "o_returnRepresentation ob = Some True"
  shows "w_returnRepresentation (outbound cfg m cred s ob) = None
         \<and> (\<exists>hs. w_headers (outbound cfg m cred s ob) = Some hs
                \<and> map_of hs ''Prefer'' = Some ''return=representation'')"
  using assms by (simp add: outbound_def update_conv')

section \<open>The claims\<close>

text \<open>
  C1, evaluated. No credential is cached and the token request fails with a network error:
  \<open>authenticate\<close> returns false instead of throwing, so the inner catch of lines 145 to 147
  never runs. The call goes on to line 155, where reading \<open>accessToken\<close> of the undefined
  slot throws, and it rejects with that TypeError (its message replaced by the error
  itself), not with the error \<open>Not authenticated to PayPal\<close>. The transport is not invoked
  for the request.
\<close>

theorem makeRequest_unauthenticated_rejects_with_TypeError:
  "slot False st_absent = None
   \<and> fst (authenticate ev_down False st_absent) = Inr False
   \<and> fst (makeRequest ev_down 0 False st_absent) =
       Inl \<lparr>e_kind = TypeError, e_message = Self, e_response = None, e_json = ''{}''\<rparr>
   \<and> fst (makeRequest ev_down 0 False st_absent) \<noteq> Inl (rethrown (newError ''Not authenticated to PayPal''))
   \<and> calls_from FromMakeRequest (snd (makeRequest ev_down 0 False st_absent)) = []"
  by (simp add: rethrown_def ex_defs run_defs)

text \<open>
  C2, as amended. After a successful \<open>authenticate\<close> whose token response carries the
  access token \<open>A\<close> and a lifetime \<open>E\<close> other than zero, or no lifetime or a lifetime of zero
  with \<open>E = 3600\<close>, the slot of the family and the persisted record of the family hold the
  credential with \<open>accessToken = A\<close> and \<open>expiresAt = T + E - 180\<close>, where \<open>T\<close> is the time at
  which the response arrived.
\<close>

theorem authenticate_stores_credential:
  assumes ok: "fst (authenticate ev mEndpoint s) = Inr True"
    and res: "axiosRequest ev (token_options (settings ev) mEndpoint) = Inr (Some res)"
    and A: "access_token res = Some A"
    and E: "expires_in res = Some E \<and> E \<noteq> 0 \<or>
            (expires_in res = None \<or> expires_in res = Some 0) \<and> E = 3600"
  shows "slot mEndpoint (snd (authenticate ev mEndpoint s)) =
           Some \<lparr>accessToken = Some A, expiresAt = clock (snd (authenticate ev mEndpoint s)) + E - 180\<rparr>
         \<and> persisted mEndpoint (snd (authenticate ev mEndpoint s)) =
           Some \<lparr>accessToken = Some A, expiresAt = clock (snd (authenticate ev mEndpoint s)) + E - 180\<rparr>"
proof -
  let ?s' = "snd (authenticate ev mEndpoint s)"
  have td: "tokenData res (clock ?s') = \<lparr>accessToken = Some A, expiresAt = clock ?s' + E - 180\<rparr>"
    using A expiresIn_lifetime [OF E] by (simp add: tokenData_def)
  have "slot mEndpoint ?s' = Some (tokenData res (clock ?s'))"
    by (rule authenticate_resolved(1) [OF res])
  moreover have "persisted mEndpoint ?s' = Some (tokenData res (clock ?s'))"
    using authenticate_resolved(3) [OF res ok] by (rule persisted_appState)
  ultimately show ?thesis using td by simp
qed

text \<open>
  The example of C2: the response \<open>{access_token: "abc", expires_in: 3600}\<close> arriving at
  time 1000 gives \<open>expiresAt = 4420\<close>.
\<close>

theorem authenticate_stores_credential_witness:
  "fst (authenticate ev_ok False st_absent) = Inr True
   \<and> clock (snd (authenticate ev_ok False st_absent)) = 1000
   \<and> slot False (snd (authenticate ev_ok False st_absent)) = Some \<lparr>accessToken = Some ''abc'', expiresAt = 4420\<rparr>
   \<and> persisted False (snd (authenticate ev_ok False st_absent)) = Some \<lparr>accessToken = Some ''abc'', expiresAt = 4420\<rparr>"
proof -
  have ok: "fst (authenticate ev_ok False st_absent) = Inr True"
    by (simp add: ex_defs run_defs)
  have res: "axiosRequest ev_ok (token_options (settings ev_ok) False) = Inr (Some (tok_res (Some ''abc'') (Some 3600)))"
    by (simp add: ex_defs token_options_def)
  have A: "access_token (tok_res (Some ''abc'') (Some 3600)) = Some ''abc''"
    by (simp add: tok_res_def)
  have E: "expires_in (tok_res (Some ''abc'') (Some 3600)) = Some 3600 \<and> (3600::int) \<noteq> 0 \<or>
            (expires_in (tok_res (Some ''abc'') (Some 3600)) = None \<or> expires_in (tok_res (Some ''abc'') (Some 3600)) = Some 0) \<and> (3600::int) = 3600"
    by (simp add: tok_res_def)
  have c: "clock (snd (authenticate ev_ok False st_absent)) = 1000"
    by (simp add: authenticate_clock ex_defs)
  show ?thesis
    using authenticate_stores_credential [OF ok res A E] ok c by simp
qed

text \<open>
  C2 as stated fails for a lifetime of zero: \<open>expires_in: 0\<close> is falsy at line 108, so the
  credential stored at time 1000 expires at 4420 and not at \<open>1000 + 0 - 180\<close>.
\<close>

theorem authenticate_zero_lifetime:
  "fst (authenticate ev_zero False st_absent) = Inr True
   \<and> axiosRequest ev_zero (token_options (settings ev_zero) False) = Inr (Some (tok_res (Some ''abc'') (Some 0)))
   \<and> clock (snd (authenticate ev_zero False st_absent)) = 1000
   \<and> slot False (snd (authenticate ev_zero False st_absent)) = Some \<lparr>accessToken = Some ''abc'', expiresAt = 4420\<rparr>
   \<and> slot False (snd (authenticate ev_zero False st_absent)) \<noteq> Some \<lparr>accessToken = Some ''abc'', expiresAt = 1000 + 0 - 180\<rparr>"
  by (simp add: ex_defs run_defs)

text \<open>
  C3, as amended. The cached credential counts as valid exactly when \<open>expiresAt > now\<close>. After
  a successful \<open>authenticate\<close> at time \<open>T\<close> with a provider lifetime \<open>E\<close> other than zero (no
  lifetime or a lifetime of zero counting as \<open>E = 3600\<close>), in every later state \<open>s2\<close> that
  still holds that credential, \<open>makeRequest\<close> uses it without authenticating when the time
  is before \<open>T + E - 180\<close>, and authenticates again when the time is \<open>T + E - 180\<close> or later.
\<close>

theorem credential_valid_until_expiry:
  assumes ok: "fst (authenticate ev mEndpoint s) = Inr True"
    and res: "axiosRequest ev (token_options (settings ev) mEndpoint) = Inr (Some res)"
    and E: "expires_in res = Some E \<and> E \<noteq> 0 \<or>
            (expires_in res = None \<or> expires_in res = Some 0) \<and> E = 3600"
    and T: "T = clock (snd (authenticate ev mEndpoint s))"
    and later: "slot mEndpoint s2 = slot mEndpoint (snd (authenticate ev mEndpoint s))"
    and r: "r < length (heapOpts s2)"
  shows "token_valid (slot mEndpoint s2) (clock s2) = (clock s2 < T + E - 180)
         \<and> authenticate_count (snd (makeRequest ev2 r mEndpoint s2)) =
             authenticate_count s2 + (if clock s2 < T + E - 180 then 0 else 1)
         \<and> (clock s2 < T + E - 180 \<longrightarrow>
              sent (snd (makeRequest ev2 r mEndpoint s2)) =
                sent s2 @ [(FromMakeRequest,
                            outbound (settings ev2) mEndpoint
                              \<lparr>accessToken = access_token res, expiresAt = T + E - 180\<rparr>
                              s2 (heapOpts s2 ! r))])"
proof -
  have sl: "slot mEndpoint s2 = Some \<lparr>accessToken = access_token res, expiresAt = T + E - 180\<rparr>"
    using authenticate_resolved(1) [OF res, of s] later T expiresIn_lifetime [OF E]
    by (simp add: tokenData_def)
  then have v: "token_valid (slot mEndpoint s2) (clock s2) = (clock s2 < T + E - 180)"
    by (simp add: token_valid_def)
  have c: "authenticate_count (snd (makeRequest ev2 r mEndpoint s2)) =
             authenticate_count s2 + (if clock s2 < T + E - 180 then 0 else 1)"
    using makeRequest_authenticate_count [OF r, of ev2 mEndpoint] v by simp
  have "sent (snd (makeRequest ev2 r mEndpoint s2)) =
                sent s2 @ [(FromMakeRequest,
                            outbound (settings ev2) mEndpoint
                              \<lparr>accessToken = access_token res, expiresAt = T + E - 180\<rparr>
                              s2 (heapOpts s2 ! r))]"
    if "clock s2 < T + E - 180"
  proof -
    from that v have tv: "token_valid (slot mEndpoint s2) (clock s2)" by simp
    show ?thesis
      using makeRequest_sent [OF r, of ev2 mEndpoint] after_renewal_sent [OF r, of ev2 mEndpoint]
        after_renewal_valid [OF r tv, of ev2] tv sl by simp
  qed
  with v c show ?thesis by simp
qed

text \<open>
  C3 at the credential obtained at time 1000 with a lifetime of 3600: no authentication at
  time 1000, one at time 4420.
\<close>

theorem credential_valid_until_expiry_witness:
  "authenticate_count (snd (makeRequest ev_ok 0 False (snd (authenticate ev_ok False st_absent)))) =
     authenticate_count (snd (authenticate ev_ok False st_absent))
   \<and> authenticate_count (snd (makeRequest ev_ok 0 False ((snd (authenticate ev_ok False st_absent))\<lparr>clock := 4420\<rparr>))) =
     authenticate_count ((snd (authenticate ev_ok False st_absent))\<lparr>clock := 4420\<rparr>) + 1"
proof -
  let ?s1 = "snd (authenticate ev_ok False st_absent)"
  have ok: "fst (authenticate ev_ok False st_absent) = Inr True"
    by (simp add: ex_defs run_defs)
  have res: "axiosRequest ev_ok (token_options (settings ev_ok) False) = Inr (Some (tok_res (Some ''abc'') (Some 3600)))"
    by (simp add: ex_defs token_options_def)
  have E: "expires_in (tok_res (Some ''abc'') (Some 3600)) = Some 3600 \<and> (3600::int) \<noteq> 0 \<or>
            (expires_in (tok_res (Some ''abc'') (Some 3600)) = None \<or> expires_in (tok_res (Some ''abc'') (Some 3600)) = Some 0) \<and> (3600::int) = 3600"
    by (simp add: tok_res_def)
  have T: "(1000::int) = clock ?s1"
    by (simp add: authenticate_clock ex_defs)
  have r1: "0 < length (heapOpts ?s1)"
    using authenticate_heap [of ev_ok False st_absent] by (simp add: ex_defs)
  have l2: "slot False (?s1\<lparr>clock := 4420\<rparr>) = slot False ?s1" by (simp add: slot_def)
  have r2: "0 < length (heapOpts (?s1\<lparr>clock := 4420\<rparr>))" using r1 by simp
  show ?thesis
    using credential_valid_until_expiry [OF ok res E T refl r1, of ev_ok]
      credential_valid_until_expiry [OF ok res E T l2 r2, of ev_ok] T
    by simp
qed

text \<open>
  C3 as stated fails for a lifetime of zero: after the successful \<open>authenticate\<close> at time
  1000, at time 1000, which is not before \<open>1000 + 0 - 180\<close>, the credential is still used
  and \<open>authenticate\<close> is not called.
\<close>

theorem zero_lifetime_stays_valid:
  "fst (authenticate ev_zero False st_absent) = Inr True
   \<and> clock st_after_zero = 1000
   \<and> (1000::int) + 0 - 180 \<le> clock st_after_zero
   \<and> authenticate_count (snd (makeRequest ev_zero 0 False st_after_zero)) = authenticate_count st_after_zero"
  by (simp add: st_after_zero_def authenticate_count_def ex_defs run_defs)

text \<open>
  C4, as amended. \<open>authenticate\<close> never raises to its caller: it always returns a boolean.
  It returns false when the transport rejects the token request (a transport failure or an
  HTTP error status), when the transport resolves with no body, and when the write to the
  persisted store rejects; it returns true in every other case, also when the body of the
  token response has no access token.
\<close>

theorem authenticate_never_raises:
  "fst (authenticate ev mEndpoint s) =
     Inr (case axiosRequest ev (token_options (settings ev) mEndpoint) of
            Inl ex \<Rightarrow> False
          | Inr None \<Rightarrow> False
          | Inr (Some res) \<Rightarrow>
              appStateFails ev ''paypal''
                (family_patch mEndpoint
                   (tokenData res (clock s + int (axiosSeconds ev (token_options (settings ev) mEndpoint)))))
              = None)"
proof (cases "axiosRequest ev (token_options (settings ev) mEndpoint)")
  case (Inl ex)
  then have "\<And>res. axiosRequest ev (token_options (settings ev) mEndpoint) \<noteq> Inr (Some res)" by simp
  from authenticate_exchange_failed(1) [OF this] show ?thesis using Inl by simp
next
  case (Inr body)
  show ?thesis
  proof (cases body)
    case None
    with Inr have "\<And>res. axiosRequest ev (token_options (settings ev) mEndpoint) \<noteq> Inr (Some res)" by simp
    from authenticate_exchange_failed(1) [OF this] show ?thesis using Inr None by simp
  next
    case (Some res)
    with Inr have r: "axiosRequest ev (token_options (settings ev) mEndpoint) = Inr (Some res)" by simp
    show ?thesis using authenticate_resolved(2) [OF r, of s] r by (simp add: authenticate_clock)
  qed
qed

text \<open>
  C4 as stated fails for a malformed response: a body with neither \<open>access_token\<close> nor
  \<open>expires_in\<close> makes \<open>authenticate\<close> return true and store a credential without a token.
\<close>

theorem authenticate_accepts_body_without_token:
  "fst (authenticate ev_bare False st_absent) = Inr True
   \<and> auth (snd (authenticate ev_bare False st_absent)) = Some \<lparr>accessToken = None, expiresAt = 4420\<rparr>"
  by (simp add: ex_cfg_def ex_state_def st_absent_def tok_res_def ex_env_def ev_bare_def
      authenticate_def authenticate_try_def token_options_def tokenData_def expiresIn_def Let_def)

text \<open>
  C5, as amended. Whenever \<open>authenticate\<close> returns false, the persisted credential of the
  family is what it was before the attempt; and when the token exchange itself failed (the
  transport rejected the token request or resolved with no body), so is the credential in
  memory.
\<close>

theorem authenticate_failure_keeps_credentials:
  assumes "fst (authenticate ev mEndpoint s) = Inr False"
  shows "persisted mEndpoint (snd (authenticate ev mEndpoint s)) = persisted mEndpoint s
         \<and> (exchange_failed ev mEndpoint \<longrightarrow>
              slot mEndpoint (snd (authenticate ev mEndpoint s)) = slot mEndpoint s)"
proof -
  have "appState (snd (authenticate ev mEndpoint s)) = appState s"
    using assms by (rule authenticate_false_store)
  then have p: "persisted mEndpoint (snd (authenticate ev mEndpoint s)) = persisted mEndpoint s"
    by (simp add: persisted_def)
  have "slot mEndpoint (snd (authenticate ev mEndpoint s)) = slot mEndpoint s"
    if "exchange_failed ev mEndpoint"
  proof -
    have nf: "\<And>res. axiosRequest ev (token_options (settings ev) mEndpoint) \<noteq> Inr (Some res)"
      using that by (auto simp: exchange_failed_def split: sum.splits option.splits)
    show ?thesis
      using authenticate_exchange_failed(2,3) [OF nf, of s] by (cases mEndpoint) (simp_all add: slot_def)
  qed
  with p show ?thesis by simp
qed

text \<open>
  C5 at an expired credential and a network error on the token request.
\<close>

theorem authenticate_failure_keeps_credentials_witness:
  "fst (authenticate ev_down False st_expired) = Inr False
   \<and> exchange_failed ev_down False
   \<and> persisted False (snd (authenticate ev_down False st_expired)) = None
   \<and> slot False (snd (authenticate ev_down False st_expired))
       = Some \<lparr>accessToken = Some ''old'', expiresAt = 900\<rparr>"
proof -
  have f: "fst (authenticate ev_down False st_expired) = Inr False"
    by (simp add: ex_defs run_defs)
  have e: "exchange_failed ev_down False"
    by (simp add: exchange_failed_def ex_defs token_options_def)
  have p: "persisted False st_expired = None" "slot False st_expired = Some \<lparr>accessToken = Some ''old'', expiresAt = 900\<rparr>"
    by (simp_all add: persisted_def slot_def st_expired_def ex_state_def)
  show ?thesis
    using authenticate_failure_keeps_credentials [OF f] f e p by simp
qed

text \<open>
  C5 as stated fails when the token exchange succeeds and the write to the persisted store
  rejects: line 121 has replaced the credential in memory before line 122 throws, and
  \<open>authenticate\<close> returns false.
\<close>

theorem authenticate_false_replaces_credential:
  "fst (authenticate ev_db_down False st_expired) = Inr False
   \<and> auth st_expired = Some \<lparr>accessToken = Some ''old'', expiresAt = 900\<rparr>
   \<and> auth (snd (authenticate ev_db_down False st_expired)) = Some \<lparr>accessToken = Some ''abc'', expiresAt = 4420\<rparr>"
  by (simp add: ex_defs run_defs)

text \<open>
  C6, as amended. \<open>parseResponseError\<close> builds the string only for an error that carries a
  response with a body: then the result is the status as \<open>Status <code>\<close> when there is a
  non-zero status, the name of the body or else its message when one of them is a non-empty
  string, and one trimmed \<open><issue> <description>\<close> for each entry of the details (an absent
  field printing as \<open>undefined\<close>), joined by a comma and a space, or the raw serialisation
  of the error when none of these is there. An error with no response or no body is
  returned as it is, not as a string.
\<close>

theorem parseResponseError_normalizes:
  "parseResponseError err =
     (case e_response err of
        None \<Rightarrow> Inl err
      | Some resp \<Rightarrow>
          (case r_data resp of
             None \<Rightarrow> Inl err
           | Some dat \<Rightarrow> Inr (normalized resp dat (e_json err))))"
proof (cases "e_response err")
  case None
  then show ?thesis by (simp add: parseResponseError_def)
next
  case (Some resp)
  show ?thesis
  proof (cases "r_data resp")
    case None
    then show ?thesis using Some by (simp add: parseResponseError_def)
  next
    case (Some dat)
    then show ?thesis using \<open>e_response err = Some resp\<close>
      by (simp add: parseResponseError_body)
  qed
qed

text \<open>
  The example of C6: status 422, name \<open>VALIDATION_ERROR\<close>, one detail \<open>DUPLICATE\<close>,
  \<open>already exists\<close>.
\<close>

theorem parseResponseError_422:
  "parseResponseError err_422 = Inr ''Status 422, VALIDATION_ERROR, DUPLICATE already exists''"
  using parseResponseError_normalizes [of err_422]
  by (simp add: err_422_def normalized_def status_text_def name_or_message_def detail_texts_def
      render_detail_def trim_def js_space_def tpl_def show_nat.simps digit_char_def)

text \<open>
  C6 as stated fails for an error without a response (a network error): the function gives
  back the error object, neither a joined string nor the raw serialisation.
\<close>

theorem parseResponseError_returns_error_itself:
  "parseResponseError net_err = Inl net_err \<and> parseResponseError net_err \<noteq> Inr (e_json net_err)"
  by (simp add: parseResponseError_def net_err_def)

text \<open>
  C7, as amended. During one call of \<open>makeRequest\<close>, \<open>authenticate\<close> is invoked at most once,
  whatever the credential slot holds and whatever the attempt gives: authentication is
  neither looped nor retried. When no credential is cached and the token exchange fails,
  the one attempt is made and the call then fails without invoking the transport for the
  request.
\<close>

theorem makeRequest_authenticates_at_most_once:
  "authenticate_count (snd (makeRequest ev reqOptions mEndpoint s)) \<le> authenticate_count s + 1
   \<and> (reqOptions < length (heapOpts s) \<and> slot mEndpoint s = None \<and> exchange_failed ev mEndpoint \<longrightarrow>
        authenticate_count (snd (makeRequest ev reqOptions mEndpoint s)) = authenticate_count s + 1
        \<and> fst (makeRequest ev reqOptions mEndpoint s) = Inl (rethrown (typeError_undefined ''accessToken''))
        \<and> calls_from FromMakeRequest (snd (makeRequest ev reqOptions mEndpoint s)) = calls_from FromMakeRequest s)"
proof -
  have le: "authenticate_count (snd (makeRequest ev reqOptions mEndpoint s)) \<le> authenticate_count s + 1"
    using makeRequest_count_le [of ev reqOptions mEndpoint s] by simp
  have "authenticate_count (snd (makeRequest ev reqOptions mEndpoint s)) = authenticate_count s + 1
        \<and> fst (makeRequest ev reqOptions mEndpoint s) = Inl (rethrown (typeError_undefined ''accessToken''))
        \<and> calls_from FromMakeRequest (snd (makeRequest ev reqOptions mEndpoint s)) = calls_from FromMakeRequest s"
    if r: "reqOptions < length (heapOpts s)" and n: "slot mEndpoint s = None" and f: "exchange_failed ev mEndpoint"
  proof -
    have nv: "\<not> token_valid (slot mEndpoint s) (clock s)" using n by (simp add: token_valid_def)
    have sl: "slot mEndpoint (after_renewal ev reqOptions mEndpoint s) = None"
      using after_renewal_failed [OF r f] n by simp
    have c: "authenticate_count (snd (makeRequest ev reqOptions mEndpoint s)) = authenticate_count s + 1"
      using makeRequest_authenticate_count [OF r, of ev mEndpoint] nv by simp
    have x: "fst (makeRequest ev reqOptions mEndpoint s) = Inl (rethrown (typeError_undefined ''accessToken''))"
      using makeRequest_run(1) [OF r, of mEndpoint ev] sl by (simp add: after_renewal_def)
    have t: "calls_from FromMakeRequest (snd (makeRequest ev reqOptions mEndpoint s)) = calls_from FromMakeRequest s"
      using makeRequest_sent [OF r, of ev mEndpoint] after_renewal_sent [OF r, of ev mEndpoint] sl
      by (simp add: calls_from_def)
    from c x t show ?thesis by simp
  qed
  with le show ?thesis by blast
qed

text \<open>
  C7 at an empty slot and a network error on the token request.
\<close>

theorem makeRequest_authenticates_at_most_once_witness:
  "0 < length (heapOpts st_absent) \<and> slot False st_absent = None \<and> exchange_failed ev_down False
   \<and> authenticate_count (snd (makeRequest ev_down 0 False st_absent)) = 1
   \<and> fst (makeRequest ev_down 0 False st_absent) = Inl (rethrown (typeError_undefined ''accessToken''))
   \<and> calls_from FromMakeRequest (snd (makeRequest ev_down 0 False st_absent)) = []"
proof -
  have h: "0 < length (heapOpts st_absent) \<and> slot False st_absent = None \<and> exchange_failed ev_down False"
    by (simp add: exchange_failed_def slot_def token_options_def ex_defs)
  have z: "authenticate_count st_absent = 0" "calls_from FromMakeRequest st_absent = []"
    by (simp_all add: authenticate_count_def calls_from_def ex_defs)
  show ?thesis
    using makeRequest_authenticates_at_most_once [of ev_down 0 False st_absent] h z by simp
qed

text \<open>
  C7 as stated fails for an expired credential: the one authentication attempt fails, and
  the call does not fail; it goes on to the transport and returns its result.
\<close>

theorem makeRequest_expired_goes_on:
  "slot False st_expired = Some \<lparr>accessToken = Some ''old'', expiresAt = 900\<rparr>
   \<and> clock st_expired = 998
   \<and> fst (authenticate ev_auth_down False (noted 0 st_expired)) = Inr False
   \<and> fst (makeRequest ev_auth_down 0 False st_expired) = Inr (Some api_res)"
  by (simp add: noted_def ex_defs run_defs)

text \<open>
  C8. \<open>makeRequest\<close> leaves the caller's request object unchanged: every request object and
  every headers object that exists before the call, the caller's among them, is the same
  after it, whatever the outcome. The Authorization header, the full URL and the
  representation header are written to objects allocated by the call.
\<close>

theorem makeRequest_leaves_request_unchanged:
  "take (length (heapOpts s)) (heapOpts (snd (makeRequest ev reqOptions mEndpoint s))) = heapOpts s
   \<and> take (length (heapHdrs s)) (heapHdrs (snd (makeRequest ev reqOptions mEndpoint s))) = heapHdrs s"
  by (rule makeRequest_frame)

text \<open>
  C9. For a request whose \<open>returnRepresentation\<close> flag is true, every request that
  \<open>makeRequest\<close> hands to the transport in the call has no \<open>returnRepresentation\<close> field and
  has the header \<open>Prefer: return=representation\<close>; and with a valid cached credential the
  transport is handed such a request.
\<close>

theorem representation_flag_becomes_header:
  assumes r: "reqOptions < length (heapOpts s)"
    and flag: "o_returnRepresentation (heapOpts s ! reqOptions) = Some True"
  shows "\<exists>rest. sent (snd (makeRequest ev reqOptions mEndpoint s)) = sent s @ rest
           \<and> (\<forall>w. (FromMakeRequest, w) \<in> set rest \<longrightarrow>
                 w_returnRepresentation w = None
                 \<and> (\<exists>hs. w_headers w = Some hs \<and> map_of hs ''Prefer'' = Some ''return=representation''))
           \<and> (token_valid (slot mEndpoint s) (clock s) \<longrightarrow> (\<exists>w. (FromMakeRequest, w) \<in> set rest))"
proof -
  let ?s1 = "after_renewal ev reqOptions mEndpoint s"
  let ?a = "if token_valid (slot mEndpoint s) (clock s) then []
            else [(FromAuthenticate, token_options (settings ev) mEndpoint)]"
  let ?d = "case slot mEndpoint ?s1 of
              None \<Rightarrow> []
            | Some cred \<Rightarrow> [(FromMakeRequest, outbound (settings ev) mEndpoint cred s (heapOpts s ! reqOptions))]"
  have s: "sent (snd (makeRequest ev reqOptions mEndpoint s)) = sent s @ (?a @ ?d)"
    using makeRequest_sent [OF r, of ev mEndpoint] after_renewal_sent [OF r, of ev mEndpoint] by simp
  have p: "\<forall>w. (FromMakeRequest, w) \<in> set (?a @ ?d) \<longrightarrow>
                 w_returnRepresentation w = None
                 \<and> (\<exists>hs. w_headers w = Some hs \<and> map_of hs ''Prefer'' = Some ''return=representation'')"
    using outbound_representation [OF flag]
    by (cases "slot mEndpoint ?s1") auto
  have n: "\<exists>w. (FromMakeRequest, w) \<in> set (?a @ ?d)" if tv: "token_valid (slot mEndpoint s) (clock s)"
  proof -
    have "slot mEndpoint ?s1 = slot mEndpoint s" by (rule after_renewal_valid [OF r tv])
    moreover have "slot mEndpoint s \<noteq> None" using tv by (auto simp: token_valid_def split: option.splits)
    ultimately show ?thesis by (cases "slot mEndpoint ?s1") auto
  qed
  from s p n show ?thesis by blast
qed

text \<open>
  C9 at a first call with the flag set: the token request, then the request with the
  header and without the flag.
\<close>

theorem representation_flag_becomes_header_witness:
  "map (\<lambda>p. (fst p, w_returnRepresentation (snd p), map_of (the (w_headers (snd p))) ''Prefer''))
       (sent (snd (makeRequest ev_ok 0 False st_absent))) =
     [(FromAuthenticate, None, None), (FromMakeRequest, None, Some ''return=representation'')]
   \<and> (\<exists>rest. sent (snd (makeRequest ev_ok 0 False st_absent)) = sent st_absent @ rest
           \<and> (\<forall>w. (FromMakeRequest, w) \<in> set rest \<longrightarrow>
                 w_returnRepresentation w = None
                 \<and> (\<exists>hs. w_headers w = Some hs \<and> map_of hs ''Prefer'' = Some ''return=representation'')))"
proof -
  have r: "0 < length (heapOpts st_absent)" by (simp add: ex_defs)
  have flag: "o_returnRepresentation (heapOpts st_absent ! 0) = Some True" by (simp add: ex_defs)
  have e: "map (\<lambda>p. (fst p, w_returnRepresentation (snd p), map_of (the (w_headers (snd p))) ''Prefer''))
       (sent (snd (makeRequest ev_ok 0 False st_absent))) =
     [(FromAuthenticate, None, None), (FromMakeRequest, None, Some ''return=representation'')]"
    by (simp add: ex_defs run_defs)
  show ?thesis
    using representation_flag_becomes_header [OF r flag, of ev_ok False] e by blast
qed

text \<open>
  C10, as amended. When a cached credential exists but is expired and the token exchange of
  the re-authentication fails, \<open>authenticate\<close> returns false and the call does not abort: it
  invokes the transport with the stale cached token in the Authorization header, and its
  outcome is the outcome of that transport call.
\<close>

theorem makeRequest_expired_uses_stale_token:
  assumes r: "reqOptions < length (heapOpts s)"
    and c: "slot mEndpoint s = Some cred"
    and x: "expiresAt cred \<le> clock s"
    and f: "exchange_failed ev mEndpoint"
  shows "fst (authenticate ev mEndpoint (noted reqOptions s)) = Inr False
         \<and> sent (snd (makeRequest ev reqOptions mEndpoint s)) =
             sent s @ [(FromAuthenticate, token_options (settings ev) mEndpoint),
                       (FromMakeRequest, outbound (settings ev) mEndpoint cred s (heapOpts s ! reqOptions))]
         \<and> fst (makeRequest ev reqOptions mEndpoint s) =
             (case axiosRequest ev (outbound (settings ev) mEndpoint cred s (heapOpts s ! reqOptions)) of
                Inl ex \<Rightarrow> Inl (rethrown ex)
              | Inr res \<Rightarrow> Inr res)
         \<and> (\<exists>hs. w_headers (outbound (settings ev) mEndpoint cred s (heapOpts s ! reqOptions)) = Some hs
                \<and> map_of hs ''Authorization'' = Some (''Bearer '' @ tpl (accessToken cred)))"
proof -
  have nf: "\<And>res. axiosRequest ev (token_options (settings ev) mEndpoint) \<noteq> Inr (Some res)"
    using f by (auto simp: exchange_failed_def split: sum.splits option.splits)
  have a: "fst (authenticate ev mEndpoint (noted reqOptions s)) = Inr False"
    by (rule authenticate_exchange_failed(1) [OF nf])
  have nv: "\<not> token_valid (slot mEndpoint s) (clock s)"
    using c x by (simp add: token_valid_def)
  have sl: "slot mEndpoint (after_renewal ev reqOptions mEndpoint s) = Some cred"
    using after_renewal_failed [OF r f] c by simp
  have se: "sent (snd (makeRequest ev reqOptions mEndpoint s)) =
             sent s @ [(FromAuthenticate, token_options (settings ev) mEndpoint),
                       (FromMakeRequest, outbound (settings ev) mEndpoint cred s (heapOpts s ! reqOptions))]"
    using makeRequest_sent [OF r, of ev mEndpoint] after_renewal_sent [OF r, of ev mEndpoint] nv sl
    by simp
  have re: "fst (makeRequest ev reqOptions mEndpoint s) =
             (case axiosRequest ev (outbound (settings ev) mEndpoint cred s (heapOpts s ! reqOptions)) of
                Inl ex \<Rightarrow> Inl (rethrown ex)
              | Inr res \<Rightarrow> Inr res)"
    using makeRequest_run(2) [OF r, of mEndpoint ev cred] sl by (simp add: after_renewal_def)
  from a se re outbound_authorization [of "settings ev" mEndpoint cred s "heapOpts s ! reqOptions"]
  show ?thesis by simp
qed

text \<open>
  C10 at an expired credential \<open>old\<close> and a network error on the token request.
\<close>

theorem makeRequest_expired_uses_stale_token_witness:
  "fst (authenticate ev_auth_down False (noted 0 st_expired)) = Inr False
   \<and> fst (makeRequest ev_auth_down 0 False st_expired) = Inr (Some api_res)
   \<and> map (\<lambda>p. (fst p, w_url (snd p), w_headers (snd p))) (sent (snd (makeRequest ev_auth_down 0 False st_expired))) =
       [(FromAuthenticate, ''https://api.paypal.com/v1/oauth2/token'',
           Some [(''Content-Type'', ''application/x-www-form-urlencoded'')]),
        (FromMakeRequest, ''https://api.paypal.com/v1/billing/plans/P-1'',
           Some [(''Accept'', ''application/json''), (''Authorization'', ''Bearer old''),
                 (''Prefer'', ''return=representation'')])]"
proof -
  have r: "0 < length (heapOpts st_expired)" by (simp add: ex_defs)
  have c: "slot False st_expired = Some \<lparr>accessToken = Some ''old'', expiresAt = 900\<rparr>"
    by (simp add: slot_def ex_defs)
  have x: "expiresAt \<lparr>accessToken = Some ''old'', expiresAt = 900\<rparr> \<le> clock st_expired"
    by (simp add: ex_defs)
  have f: "exchange_failed ev_auth_down False"
    by (simp add: exchange_failed_def token_options_def ex_defs)
  have o: "outbound (settings ev_auth_down) False \<lparr>accessToken = Some ''old'', expiresAt = 900\<rparr> st_expired (heapOpts st_expired ! 0)
        = \<lparr>w_method = Some ''PATCH'', w_url = ''https://api.paypal.com/v1/billing/plans/P-1'',
           w_headers = Some [(''Accept'', ''application/json''), (''Authorization'', ''Bearer old''),
                 (''Prefer'', ''return=representation'')],
           w_data = Some ''[]'', w_returnRepresentation = None, w_timeout = None, w_auth = None\<rparr>"
    by (simp add: outbound_def headers_of_def lookup_def familyBaseUrl_def tpl_def ex_defs)
  have s0: "sent st_expired = []" by (simp add: ex_defs)
  have t: "token_options (settings ev_auth_down) False =
      \<lparr>w_method = Some ''POST'', w_url = ''https://api.paypal.com/v1/oauth2/token'',
      w_headers = Some [(''Content-Type'', ''application/x-www-form-urlencoded'')],
      w_data = Some ''grant_type=client_credentials'', w_returnRepresentation = None,
      w_timeout = Some 5000, w_auth = Some (''id'', ''secret'')\<rparr>"
    by (simp add: token_options_def familyBaseUrl_def ex_defs)
  have ax: "axiosRequest ev_auth_down \<lparr>w_method = Some ''PATCH'', w_url = ''https://api.paypal.com/v1/billing/plans/P-1'',
           w_headers = Some [(''Accept'', ''application/json''), (''Authorization'', ''Bearer old''),
                 (''Prefer'', ''return=representation'')],
           w_data = Some ''[]'', w_returnRepresentation = None, w_timeout = None, w_auth = None\<rparr> = Inr (Some api_res)"
    by (simp add: ex_defs)
  show ?thesis
    using makeRequest_expired_uses_stale_token [OF r c x f] o s0 t ax by simp
qed

text \<open>
  C10 as stated fails when \<open>authenticate\<close> returns false because the write to the persisted
  store rejected: the slot already holds the new token, and the request carries the new
  token \<open>abc\<close>, not the stale \<open>old\<close>.
\<close>

theorem makeRequest_failed_persist_uses_new_token:
  "slot False st_expired = Some \<lparr>accessToken = Some ''old'', expiresAt = 900\<rparr>
   \<and> clock st_expired = 998
   \<and> fst (authenticate ev_db_down False (noted 0 st_expired)) = Inr False
   \<and> map (\<lambda>p. map_of (the (w_headers (snd p))) ''Authorization'')
         (sent (snd (makeRequest ev_db_down 0 False st_expired))) = [None, Some ''Bearer abc'']"
  by (simp add: noted_def ex_defs run_defs)

end
